theory Spec2Isabelle
  imports Main "HOL-Library.Word"
begin

section \<open>Errors, panics and results\<close>

text \<open>
  Go's \<open>error\<close> values. The entity store reports failures as API status errors carrying a
  reason; \<open>errors.Wrap\<close> (github.com/pkg/errors) puts a message around an error. A nil
  error is \<open>None\<close> of type \<open>error option\<close>.
\<close>

datatype StatusReason = NotFound | AlreadyExists | Conflict | Forbidden | ServerTimeout | InternalError

datatype error =
    StatusError StatusReason
  | PlainError string
  | Wrapped error string

text \<open>\<open>k8serrors.ReasonForError\<close> looks through wrapped errors for an API status.\<close>

fun ReasonForError :: "error \<Rightarrow> StatusReason option" where
  "ReasonForError (StatusError r) = Some r"
| "ReasonForError (PlainError m) = None"
| "ReasonForError (Wrapped e m) = ReasonForError e"

text \<open>\<open>k8serrors.IsNotFound(err)\<close>; false on a nil error.\<close>

fun IsNotFound :: "error option \<Rightarrow> bool" where
  "IsNotFound None = False"
| "IsNotFound (Some e) = (ReasonForError e = Some NotFound)"

text \<open>\<open>errors.Wrap(err, msg)\<close>: returns nil when \<open>err\<close> is nil.\<close>

fun Wrap :: "error option \<Rightarrow> string \<Rightarrow> error option" where
  "Wrap None msg = None"
| "Wrap (Some e) msg = Some (Wrapped e msg)"

text \<open>
  A Go function either returns or panics. \<open>LoggerPanic\<close> is the panic raised by
  \<open>observability.RecordPanic\<close> (zap's \<open>Panicw\<close>), \<open>NilPointerDereference\<close> the
  runtime panic of a field access through a nil pointer.
\<close>

datatype panic = LoggerPanic | NilPointerDereference

datatype 'a outcome = Returns 'a | Panics panic

text \<open>\<open>ctrl.Result\<close>; \<open>RequeueAfter\<close> is a \<open>time.Duration\<close>, counted in nanoseconds.\<close>

record Result =
  Requeue :: bool
  RequeueAfter :: int

definition Nanosecond :: int where "Nanosecond = 1"
definition Microsecond :: int where "Microsecond = 1000 * Nanosecond"
definition Millisecond :: int where "Millisecond = 1000 * Microsecond"
definition Second :: int where "Second = 1000 * Millisecond"
definition Minute :: int where "Minute = 60 * Second"

definition Result0 :: Result where
  "Result0 = \<lparr>Requeue = False, RequeueAfter = 0\<rparr>"

section \<open>Data model\<close>

record NamespacedName =
  nn_Namespace :: string
  nn_Name :: string

record OwnerReference =
  or_APIVersion :: string
  or_Kind :: string
  or_Name :: string
  or_UID :: string
  or_Controller :: "bool option"
  or_BlockOwnerDeletion :: "bool option"

record ObjectMeta =
  om_Name :: string
  om_Namespace :: string
  om_UID :: string
  om_Labels :: "string \<rightharpoonup> string"
  om_Annotations :: "string \<rightharpoonup> string"
  om_OwnerReferences :: "OwnerReference list"

definition ObjectMeta0 :: ObjectMeta where
  "ObjectMeta0 = \<lparr>om_Name = [], om_Namespace = [], om_UID = [], om_Labels = Map.empty,
     om_Annotations = Map.empty, om_OwnerReferences = []\<rparr>"

subsection \<open>Site (HugoPage)\<close>

record HugoPageSpec =
  hp_Repository :: string
  hp_Branch :: string
  hp_URL :: string
  hp_BuildType :: string
  hp_CronInterval :: string

record HugoPageStatus =
  hp_LastBuild :: string
  hp_Commit :: string
  hp_Status :: string

record HugoPage =
  page_Meta :: ObjectMeta
  page_Spec :: HugoPageSpec
  page_Status :: HugoPageStatus

definition HugoPage0 :: HugoPage where
  "HugoPage0 = \<lparr>page_Meta = ObjectMeta0,
     page_Spec = \<lparr>hp_Repository = [], hp_Branch = [], hp_URL = [], hp_BuildType = [], hp_CronInterval = []\<rparr>,
     page_Status = \<lparr>hp_LastBuild = [], hp_Commit = [], hp_Status = []\<rparr>\<rparr>"

abbreviation page_Name :: "HugoPage \<Rightarrow> string" where
  "page_Name page \<equiv> om_Name (page_Meta page)"

abbreviation page_Namespace :: "HugoPage \<Rightarrow> string" where
  "page_Namespace page \<equiv> om_Namespace (page_Meta page)"

subsection \<open>SiteConfig (Setting)\<close>

record TLSSpec =
  tls_Enable :: bool
  tls_Annotations :: "string \<rightharpoonup> string"

record S3Config =
  s3_Endpoint :: string
  s3_BucketName :: string
  s3_SecretName :: string
  s3_AccessKeyIDRef :: string
  s3_AccessKeyRef :: string

record SettingSpec =
  st_TLS :: TLSSpec
  st_IngressClassName :: string
  st_S3Config :: S3Config
  st_ProxyURL :: string
  st_NginxProxyReplica :: "32 word"

record Setting =
  set_Meta :: ObjectMeta
  set_Spec :: SettingSpec

definition Setting0 :: Setting where
  "Setting0 = \<lparr>set_Meta = ObjectMeta0,
     set_Spec = \<lparr>st_TLS = \<lparr>tls_Enable = False, tls_Annotations = Map.empty\<rparr>,
       st_IngressClassName = [],
       st_S3Config = \<lparr>s3_Endpoint = [], s3_BucketName = [], s3_SecretName = [],
         s3_AccessKeyIDRef = [], s3_AccessKeyRef = []\<rparr>,
       st_ProxyURL = [], st_NginxProxyReplica = 0\<rparr>\<rparr>"

subsection \<open>Child resources\<close>

datatype EnvVar =
    EnvValue string string
  | EnvSecretKeyRef string string string

record VolumeMount =
  vm_Name :: string
  vm_MountPath :: string
  vm_SubPath :: string
  vm_ReadOnly :: bool

record Container =
  c_Name :: string
  c_Image :: string
  c_Env :: "EnvVar list"
  c_Ports :: "int list"
  c_VolumeMounts :: "VolumeMount list"

record Volume =
  v_Name :: string
  v_ConfigMapName :: string

record PodSpec =
  pod_RestartPolicy :: string
  pod_Containers :: "Container list"
  pod_Volumes :: "Volume list"

record CronJobSpec =
  cj_Schedule :: string
  cj_ConcurrencyPolicy :: string
  cj_StartingDeadlineSeconds :: "int option"
  cj_Suspend :: "bool option"
  cj_SuccessfulJobsHistoryLimit :: "int option"
  cj_FailedJobsHistoryLimit :: "int option"
  cj_JobTemplate :: PodSpec

record DeploymentSpec =
  dp_Selector :: "string \<rightharpoonup> string"
  dp_Replicas :: "32 word option"
  dp_TemplateLabels :: "string \<rightharpoonup> string"
  dp_TemplateSpec :: PodSpec

record ServicePort =
  sp_Name :: string
  sp_Protocol :: string
  sp_Port :: int
  sp_TargetPort :: int

record ServiceSpec =
  svc_Selector :: "string \<rightharpoonup> string"
  svc_Ports :: "ServicePort list"

record HTTPIngressPath =
  ip_Path :: string
  ip_PathType :: "string option"
  ip_ServiceName :: string
  ip_ServicePort :: int

record IngressRule =
  ir_Host :: string
  ir_Paths :: "HTTPIngressPath list"

record IngressTLS =
  it_Hosts :: "string list"
  it_SecretName :: string

record IngressSpec =
  ing_IngressClassName :: "string option"
  ing_Rules :: "IngressRule list"
  ing_TLS :: "IngressTLS list"

datatype Kind = CronJobKind | ConfigMapKind | DeploymentKind | ServiceKind | IngressKind

text \<open>
  The part of a child resource the reconciler assigns: the spec (for a ConfigMap, its
  \<open>Data\<close>). \<open>NoSpec\<close> is the zero value of a freshly allocated object.
\<close>

datatype Spec =
    NoSpec
  | OfCronJob CronJobSpec
  | OfConfigMap "string \<rightharpoonup> string"
  | OfDeployment DeploymentSpec
  | OfService ServiceSpec
  | OfIngress IngressSpec

text \<open>
  A child resource: metadata, spec, and \<open>obj_Rest\<close> for everything else the store keeps
  with it (status, type information), which the reconciler reads but never assigns.
\<close>

record Object =
  obj_Meta :: ObjectMeta
  obj_Spec :: Spec
  obj_Rest :: string

definition Object0 :: Object where
  "Object0 = \<lparr>obj_Meta = ObjectMeta0, obj_Spec = NoSpec, obj_Rest = []\<rparr>"

fun kindOfSpec :: "Spec \<Rightarrow> Kind option" where
  "kindOfSpec NoSpec = None"
| "kindOfSpec (OfCronJob s) = Some CronJobKind"
| "kindOfSpec (OfConfigMap d) = Some ConfigMapKind"
| "kindOfSpec (OfDeployment s) = Some DeploymentKind"
| "kindOfSpec (OfService s) = Some ServiceKind"
| "kindOfSpec (OfIngress s) = Some IngressKind"

section \<open>The entity store behind \<open>client.Client\<close>\<close>

text \<open>
  The store is an external collaborator: any implementation of the three calls the
  reconciler makes, over any state \<open>'s\<close>. \<open>Get\<close> fills the caller's object and returns an
  error or nil; \<open>Create\<close> and \<open>Update\<close> send the object and return an error or nil.
\<close>

record 's Client =
  cl_GetHugoPage :: "NamespacedName \<Rightarrow> 's \<Rightarrow> (error option \<times> HugoPage) \<times> 's"
  cl_GetSetting :: "NamespacedName \<Rightarrow> 's \<Rightarrow> (error option \<times> Setting) \<times> 's"
  cl_Get :: "Kind \<Rightarrow> NamespacedName \<Rightarrow> 's \<Rightarrow> (error option \<times> Object) \<times> 's"
  cl_Create :: "Object \<Rightarrow> 's \<Rightarrow> error option \<times> 's"
  cl_Update :: "Object \<Rightarrow> 's \<Rightarrow> error option \<times> 's"

text \<open>Every call made against the store is recorded, in order.\<close>

datatype Call =
    GetHugoPageCall NamespacedName
  | GetSettingCall NamespacedName
  | GetCall Kind NamespacedName
  | CreateCall Object
  | UpdateCall Object

record 's World =
  store :: 's
  calls :: "Call list"

definition clientGetHugoPage ::
  "'s Client \<Rightarrow> NamespacedName \<Rightarrow> 's World \<Rightarrow> (error option \<times> HugoPage) \<times> 's World" where
  "clientGetHugoPage c key w =
     (case cl_GetHugoPage c key (store w) of
        (res, s') \<Rightarrow> (res, \<lparr>store = s', calls = calls w @ [GetHugoPageCall key]\<rparr>))"

definition clientGetSetting ::
  "'s Client \<Rightarrow> NamespacedName \<Rightarrow> 's World \<Rightarrow> (error option \<times> Setting) \<times> 's World" where
  "clientGetSetting c key w =
     (case cl_GetSetting c key (store w) of
        (res, s') \<Rightarrow> (res, \<lparr>store = s', calls = calls w @ [GetSettingCall key]\<rparr>))"

definition clientGet ::
  "'s Client \<Rightarrow> Kind \<Rightarrow> NamespacedName \<Rightarrow> 's World \<Rightarrow> (error option \<times> Object) \<times> 's World" where
  "clientGet c k key w =
     (case cl_Get c k key (store w) of
        (res, s') \<Rightarrow> (res, \<lparr>store = s', calls = calls w @ [GetCall k key]\<rparr>))"

definition clientCreate :: "'s Client \<Rightarrow> Object \<Rightarrow> 's World \<Rightarrow> error option \<times> 's World" where
  "clientCreate c obj w =
     (case cl_Create c obj (store w) of
        (err, s') \<Rightarrow> (err, \<lparr>store = s', calls = calls w @ [CreateCall obj]\<rparr>))"

definition clientUpdate :: "'s Client \<Rightarrow> Object \<Rightarrow> 's World \<Rightarrow> error option \<times> 's World" where
  "clientUpdate c obj w =
     (case cl_Update c obj (store w) of
        (err, s') \<Rightarrow> (err, \<lparr>store = s', calls = calls w @ [UpdateCall obj]\<rparr>))"

subsection \<open>Entity accessors (pkg/client)\<close>

text \<open>\<open>HugoPageClient.GetNamespaced\<close>: \<open>(nil, err)\<close> on failure, \<open>(page, nil)\<close> otherwise.\<close>

definition HugoPageClient_GetNamespaced ::
  "'s Client \<Rightarrow> NamespacedName \<Rightarrow> 's World \<Rightarrow> (HugoPage option \<times> error option) \<times> 's World" where
  "HugoPageClient_GetNamespaced c nameNamespaced w =
     (case clientGetHugoPage c nameNamespaced w of
        ((Some err, page), w') \<Rightarrow> ((None, Some err), w')
      | ((None, page), w') \<Rightarrow> ((Some page, None), w'))"

definition SettingsClient_GetNamespaced ::
  "'s Client \<Rightarrow> NamespacedName \<Rightarrow> 's World \<Rightarrow> (Setting option \<times> error option) \<times> 's World" where
  "SettingsClient_GetNamespaced c nameNamespaced w =
     (case clientGetSetting c nameNamespaced w of
        ((Some err, setting), w') \<Rightarrow> ((None, Some err), w')
      | ((None, setting), w') \<Rightarrow> ((Some setting, None), w'))"

definition SettingsClient_GetNameNamespace ::
  "'s Client \<Rightarrow> string \<Rightarrow> string \<Rightarrow> 's World \<Rightarrow> (Setting option \<times> error option) \<times> 's World" where
  "SettingsClient_GetNameNamespace c name namespace w =
     SettingsClient_GetNamespaced c \<lparr>nn_Namespace = namespace, nn_Name = name\<rparr> w"

section \<open>Owner references (controllerutil)\<close>

text \<open>
  The scheme maps Go types to their group, version and kind. The reconciler only asks it
  for the HugoPage type: \<open>Some (apiVersion, kind)\<close> when that type is registered.
\<close>

type_synonym Scheme = "(string \<times> string) option"

definition validateOwner :: "ObjectMeta \<Rightarrow> ObjectMeta \<Rightarrow> error option" where
  "validateOwner owner object =
     (let ownerNs = om_Namespace owner in
      if ownerNs \<noteq> [] then
        (let objNs = om_Namespace object in
         if objNs = [] then
           Some (PlainError ''cluster-scoped resource must not have a namespace-scoped owner'')
         else if ownerNs \<noteq> objNs then
           Some (PlainError ''cross-namespace owner references are disallowed'')
         else None)
      else None)"

text \<open>\<open>schema.ParseGroupVersion\<close>, group part: the text before the slash, empty without one.\<close>

definition groupOf :: "string \<Rightarrow> string" where
  "groupOf apiVersion =
     (if CHR ''/'' \<in> set apiVersion then takeWhile (\<lambda>c. c \<noteq> CHR ''/'') apiVersion else [])"

definition referSameObject :: "OwnerReference \<Rightarrow> OwnerReference \<Rightarrow> bool" where
  "referSameObject a b =
     (groupOf (or_APIVersion a) = groupOf (or_APIVersion b)
      \<and> or_Kind a = or_Kind b \<and> or_Name a = or_Name b)"

text \<open>\<open>metav1.GetControllerOf\<close>: the first owner reference marked as controller.\<close>

definition GetControllerOf :: "ObjectMeta \<Rightarrow> OwnerReference option" where
  "GetControllerOf meta = find (\<lambda>x. or_Controller x = Some True) (om_OwnerReferences meta)"

fun upsertOwnerRef :: "OwnerReference \<Rightarrow> OwnerReference list \<Rightarrow> OwnerReference list" where
  "upsertOwnerRef ref [] = [ref]"
| "upsertOwnerRef ref (x # xs) =
     (if referSameObject x ref then ref # xs else x # upsertOwnerRef ref xs)"

text \<open>
  \<open>ctrl.SetControllerReference(owner, controlled, scheme)\<close>: validates the owner, builds the
  controller reference from the owner's name and UID, refuses an object that another
  controller already owns, and otherwise records the reference on the object.
\<close>

definition SetControllerReference :: "HugoPage \<Rightarrow> Object \<Rightarrow> Scheme \<Rightarrow> error option \<times> Object" where
  "SetControllerReference owner controlled sch =
     (case validateOwner (page_Meta owner) (obj_Meta controlled) of
        Some err \<Rightarrow> (Some err, controlled)
      | None \<Rightarrow>
          (case sch of
             None \<Rightarrow> (Some (PlainError ''no kind is registered for the type v1alpha1.HugoPage''), controlled)
           | Some (apiVersion, kind) \<Rightarrow>
               (let ref = \<lparr>or_APIVersion = apiVersion, or_Kind = kind,
                          or_Name = om_Name (page_Meta owner), or_UID = om_UID (page_Meta owner),
                          or_Controller = Some True, or_BlockOwnerDeletion = Some True\<rparr>;
                    existing = om_OwnerReferences (obj_Meta controlled)
                in case GetControllerOf (obj_Meta controlled) of
                     Some ex \<Rightarrow>
                       if \<not> referSameObject ex ref then
                         (Some (PlainError ''Object is already owned by another controller''), controlled)
                       else
                         (None, controlled\<lparr>obj_Meta := (obj_Meta controlled)
                            \<lparr>om_OwnerReferences := upsertOwnerRef ref existing\<rparr>\<rparr>)
                   | None \<Rightarrow>
                       (None, controlled\<lparr>obj_Meta := (obj_Meta controlled)
                          \<lparr>om_OwnerReferences := upsertOwnerRef ref existing\<rparr>\<rparr>))))"

section \<open>Config renderer (text/template)\<close>

text \<open>
  The fragment of \<open>text/template\<close> the proxy configuration uses: literal text and field
  actions \<open>{{.NAME}}\<close>. Any other action is outside this fragment and reported as a parse
  error, as is an action that is never closed.
\<close>

datatype Node = TextNode string | FieldNode string

definition isIdentChar :: "char \<Rightarrow> bool" where
  "isIdentChar c =
     (let n = (of_char c :: nat) in
      (48 \<le> n \<and> n \<le> 57) \<or> (65 \<le> n \<and> n \<le> 90) \<or> (97 \<le> n \<and> n \<le> 122) \<or> n = 95)"

definition trimSpace :: "string \<Rightarrow> string" where
  "trimSpace s = rev (dropWhile (\<lambda>c. c = CHR '' '') (rev (dropWhile (\<lambda>c. c = CHR '' '') s)))"

definition parseAction :: "string \<Rightarrow> error + Node" where
  "parseAction body =
     (case trimSpace body of
        [] \<Rightarrow> Inl (PlainError ''template: nginx.conf: missing value for command'')
      | c # name \<Rightarrow>
          if c = CHR ''.'' \<and> name \<noteq> [] \<and> list_all isIdentChar name then Inr (FieldNode name)
          else Inl (PlainError ''template: nginx.conf: unsupported action''))"

definition textNode :: "string \<Rightarrow> Node list" where
  "textNode s = (if s = [] then [] else [TextNode s])"

fun lexTemplate :: "bool \<Rightarrow> string \<Rightarrow> string \<Rightarrow> error + Node list" where
  "lexTemplate inAction acc [] =
     (if inAction then Inl (PlainError ''template: nginx.conf: unclosed action'')
      else Inr (textNode (rev acc)))"
| "lexTemplate inAction acc [c] = lexTemplate inAction (c # acc) []"
| "lexTemplate inAction acc (c # d # cs) =
     (if \<not> inAction \<and> c = CHR ''{'' \<and> d = CHR ''{'' then
        (case lexTemplate True [] cs of
           Inl e \<Rightarrow> Inl e
         | Inr ns \<Rightarrow> Inr (textNode (rev acc) @ ns))
      else if inAction \<and> c = CHR ''}'' \<and> d = CHR ''}'' then
        (case parseAction (rev acc) of
           Inl e \<Rightarrow> Inl e
         | Inr n \<Rightarrow>
             (case lexTemplate False [] cs of
                Inl e \<Rightarrow> Inl e
              | Inr ns \<Rightarrow> Inr (n # ns)))
      else lexTemplate inAction (c # acc) (d # cs))"

text \<open>\<open>template.New(name).Parse(text)\<close>\<close>

definition Parse :: "string \<Rightarrow> error + Node list" where
  "Parse text = lexTemplate False [] text"

text \<open>
  \<open>Execute\<close> over a \<open>map[string]string\<close>: a field prints the value stored under its name,
  and \<open><no value>\<close> for a key the map lacks.
\<close>

fun evalNode :: "(string \<rightharpoonup> string) \<Rightarrow> Node \<Rightarrow> string" where
  "evalNode data (TextNode s) = s"
| "evalNode data (FieldNode f) = (case data f of Some v \<Rightarrow> v | None \<Rightarrow> ''<no value>'')"

definition Execute :: "Node list \<Rightarrow> (string \<rightharpoonup> string) \<Rightarrow> string" where
  "Execute tmpl data = concat (map (evalNode data) tmpl)"

definition nginxConfTemplate :: string where
  \<open>nginxConfTemplate =
     ''user  nginx;\<newline>'' @
     ''worker_processes  1;\<newline>'' @
     ''error_log  /var/log/nginx/error.log warn;\<newline>'' @
     ''pid        /var/run/nginx.pid;\<newline>'' @
     ''events {\<newline>'' @
     [CHR 0x09] @ ''worker_connections  1024;\<newline>'' @
     ''}\<newline>'' @
     ''http {\<newline>'' @
     ''  log_format  main   $remote_addr - $remote_user [$time_local] "$request" $status $body_bytes_sent "$http_referer" "$http_user_agent" "$http_x_forwarded_for";\<newline>'' @
     ''  include            /etc/nginx/mime.types;\<newline>'' @
     ''  default_type       application/octet-stream;\<newline>'' @
     ''  access_log         /var/log/nginx/access.log  main;\<newline>'' @
     ''  sendfile           on;\<newline>'' @
     ''  keepalive_timeout  65;\<newline>'' @
     ''  server {\<newline>'' @
     [CHR 0x09] @ ''listen 80;\<newline>'' @
     [CHR 0x09] @ ''listen [::]:80;\<newline>'' @
     ''\<newline>'' @
     [CHR 0x09] @ ''server_name _;\<newline>'' @
     [CHR 0x09] @ ''resolver kube-dns.kube-system.svc.cluster.local valid=5s;\<newline>'' @
     ''\<newline>'' @
     [CHR 0x09] @ ''location /healthz {\<newline>'' @
     [CHR 0x09] @ ''  return 200;\<newline>'' @
     [CHR 0x09] @ ''}\<newline>'' @
     ''\<newline>'' @
     [CHR 0x09] @ ''location / {\<newline>'' @
     [CHR 0x09] @ ''  rewrite ^(.*)(?!index'' @ [CHR 0x5C] @ ''.html)$ $1/index.html last;\<newline>'' @
     [CHR 0x09] @ ''  proxy_pass {{.S3_URL}}/{{.BUCKET_NAME}}/{{.PAGE_NAME}}/;\<newline>'' @
     [CHR 0x09] @ ''  proxy_redirect off;\<newline>'' @
     [CHR 0x09] @ ''  proxy_intercept_errors on;\<newline>'' @
     [CHR 0x09] @ ''  proxy_set_header Host $http_host;\<newline>'' @
     [CHR 0x09] @ ''  proxy_set_header X-Real-IP $remote_addr;\<newline>'' @
     [CHR 0x09] @ ''  proxy_set_header X-Forwarded-For $proxy_add_x_forwarded_for;\<newline>'' @
     [CHR 0x09] @ ''  proxy_set_header X-Forwarded-Proto $scheme;\<newline>'' @
     [CHR 0x09] @ ''}\<newline>'' @
     ''  }\<newline>'' @
     ''}\<newline>''\<close>

section \<open>Resource namer and labeler\<close>

definition makeLabels :: "HugoPage \<Rightarrow> string \<Rightarrow> (string \<rightharpoonup> string)" where
  "makeLabels page component =
     [''app'' \<mapsto> ''hugo-hoster'', ''component'' \<mapsto> component, ''page'' \<mapsto> page_Name page]"

text \<open>
  \<open>strings.ReplaceAll(s, old, new)\<close>: every non-overlapping occurrence of \<open>old\<close>, from the
  left; an empty \<open>old\<close> matches before every character and at the end.
\<close>

function ReplaceAll :: "string \<Rightarrow> string \<Rightarrow> string \<Rightarrow> string" where
  "ReplaceAll s old new =
     (if old = [] then new @ concat (map (\<lambda>c. c # new) s)
      else (case s of
              [] \<Rightarrow> []
            | c # cs \<Rightarrow>
                if take (length old) s = old then new @ ReplaceAll (drop (length old) s) old new
                else c # ReplaceAll cs old new))"
  by pat_completeness auto
termination
  by (relation "measure (\<lambda>(s, old, new). length s)") auto

declare ReplaceAll.simps [simp del]

section \<open>Upsert engines\<close>

record 's HugoPageReconciler =
  client :: "'s Client"
  pageClient :: "'s Client"
  settingClient :: "'s Client"
  scheme :: Scheme
  settingName :: string

definition NewHugoPageReconciler ::
  "'s Client \<Rightarrow> 's Client \<Rightarrow> 's Client \<Rightarrow> string \<Rightarrow> Scheme \<Rightarrow> 's HugoPageReconciler" where
  "NewHugoPageReconciler cl pageCl settingCl settingsName sch =
     \<lparr>client = cl, pageClient = pageCl, settingClient = settingCl,
      scheme = sch, settingName = settingsName\<rparr>"

type_synonym 's upsert_result = "(Object option \<times> error option) outcome \<times> 's World"

text \<open>
  The tail every upsert ends with is written out in each of them, as in the source:
  create when the read reported not-found, return when the read failed otherwise, and
  then update.
\<close>

subsection \<open>ScheduledJob (CronJob)\<close>

definition buildPageBuilderCronJob :: "HugoPage \<Rightarrow> Setting \<Rightarrow> Scheme \<Rightarrow> Object \<Rightarrow> Object" where
  "buildPageBuilderCronJob page settings sch builderCronJob0 =
     (let startingDeadlineSeconds = (100 :: int);
          suspend = False;
          successfulJobsHistoryLimit = (3 :: int);
          failedJobsHistoryLimit = (10 :: int);
          s3 = st_S3Config (set_Spec settings);
          builderCronJob1 = builderCronJob0\<lparr>obj_Meta := ObjectMeta0
            \<lparr>om_Name := page_Name page,
             om_Namespace := page_Namespace page,
             om_Labels := makeLabels page ''builder''\<rparr>\<rparr>;
          builderCronJob2 = builderCronJob1\<lparr>obj_Spec := OfCronJob
            \<lparr>cj_Schedule = hp_CronInterval (page_Spec page),
             cj_ConcurrencyPolicy = ''Forbid'',
             cj_StartingDeadlineSeconds = Some startingDeadlineSeconds,
             cj_Suspend = Some suspend,
             cj_SuccessfulJobsHistoryLimit = Some successfulJobsHistoryLimit,
             cj_FailedJobsHistoryLimit = Some failedJobsHistoryLimit,
             cj_JobTemplate =
               \<lparr>pod_RestartPolicy = ''OnFailure'',
                pod_Containers =
                  [\<lparr>c_Name = ''page-builder'',
                    c_Image = ''ghcr.io/hugo-hoster/page_builder:main'',
                    c_Env =
                      [EnvValue ''REPO_URL'' (hp_Repository (page_Spec page)),
                       EnvValue ''PAGE_NAME'' (page_Name page),
                       EnvValue ''S3_BUCKET_NAME'' (s3_BucketName s3),
                       EnvSecretKeyRef ''AWS_ACCESS_KEY_ID'' (s3_SecretName s3) (s3_AccessKeyIDRef s3),
                       EnvSecretKeyRef ''AWS_SECRET_ACCESS_KEY'' (s3_SecretName s3) (s3_AccessKeyRef s3),
                       EnvValue ''S3_ENDPOINT'' (s3_Endpoint s3)],
                    c_Ports = [],
                    c_VolumeMounts = []\<rparr>],
                pod_Volumes = []\<rparr>\<rparr>\<rparr>
      in snd (SetControllerReference page builderCronJob2 sch))"

fun upsertPageBuilderCronJob ::
  "'s HugoPageReconciler \<Rightarrow> HugoPage option \<Rightarrow> Setting \<Rightarrow> 's World \<Rightarrow> 's upsert_result" where
  "upsertPageBuilderCronJob r None settings w = (Panics NilPointerDereference, w)"
| "upsertPageBuilderCronJob r (Some page) settings w =
     (case clientGet (client r) CronJobKind
             \<lparr>nn_Namespace = page_Namespace page, nn_Name = page_Name page\<rparr> w of
        ((err, read), w1) \<Rightarrow>
          (let builderCronJob = buildPageBuilderCronJob page settings (scheme r) read in
           (case (if err \<noteq> None \<and> IsNotFound err then
                    (case clientCreate (client r) builderCronJob w1 of
                       (cerr, w2) \<Rightarrow>
                         (if cerr \<noteq> None then
                            Some (None, Wrap cerr ''Failed to create new page-builder CronJob'')
                          else None, w2))
                  else if err \<noteq> None then
                    (Some (None, Wrap err ''Failed to get page-builder CronJob''), w1)
                  else (None, w1)) of
              (Some ret, w2) \<Rightarrow> (Returns ret, w2)
            | (None, w2) \<Rightarrow>
                (case clientUpdate (client r) builderCronJob w2 of
                   (uerr, w3) \<Rightarrow>
                     if uerr \<noteq> None then
                       (Returns (None, Wrap uerr ''Failed to update page-builder CronJob''), w3)
                     else (Returns (Some builderCronJob, None), w3)))))"

subsection \<open>Route (Ingress)\<close>

definition buildPageIngress :: "HugoPage \<Rightarrow> Setting \<Rightarrow> Scheme \<Rightarrow> Object \<Rightarrow> Object" where
  "buildPageIngress page settings sch ingress0 =
     (let pathTypePrefix = ''Prefix'';
          ingress1 = ingress0\<lparr>obj_Meta := ObjectMeta0
            \<lparr>om_Name := page_Name page,
             om_Namespace := page_Namespace page,
             om_Labels := makeLabels page ''nginx-proxy'',
             om_Annotations := Map.empty\<rparr>\<rparr>;
          spec =
            \<lparr>ing_IngressClassName = Some (st_IngressClassName (set_Spec settings)),
             ing_Rules =
               [\<lparr>ir_Host = hp_URL (page_Spec page),
                 ir_Paths =
                   [\<lparr>ip_Path = ''/'',
                     ip_PathType = Some pathTypePrefix,
                     ip_ServiceName = ''nginx-proxy-'' @ page_Name page @ ''-svc'',
                     ip_ServicePort = 80\<rparr>]\<rparr>],
             ing_TLS = []\<rparr>;
          ingress2 = ingress1\<lparr>obj_Spec := OfIngress spec\<rparr>;
          ingress3 =
            (if tls_Enable (st_TLS (set_Spec settings)) then
               ingress2
                 \<lparr>obj_Spec := OfIngress (spec
                    \<lparr>ing_TLS :=
                       [\<lparr>it_Hosts = [hp_URL (page_Spec page)],
                         it_SecretName = ReplaceAll (page_Name page) ''.'' ''-'' @ ''-page-secret''\<rparr>]\<rparr>),
                  obj_Meta := (obj_Meta ingress2)
                    \<lparr>om_Annotations := om_Annotations (obj_Meta ingress2)
                       ++ tls_Annotations (st_TLS (set_Spec settings))\<rparr>\<rparr>
             else ingress2)
      in snd (SetControllerReference page ingress3 sch))"

fun upsertPageIngress ::
  "'s HugoPageReconciler \<Rightarrow> HugoPage option \<Rightarrow> Setting \<Rightarrow> 's World \<Rightarrow> 's upsert_result" where
  "upsertPageIngress r None settings w = (Panics NilPointerDereference, w)"
| "upsertPageIngress r (Some page) settings w =
     (case clientGet (client r) IngressKind
             \<lparr>nn_Namespace = page_Namespace page, nn_Name = page_Name page\<rparr> w of
        ((err, read), w1) \<Rightarrow>
          (let ingress = buildPageIngress page settings (scheme r) read in
           (case (if err \<noteq> None \<and> IsNotFound err then
                    (case clientCreate (client r) ingress w1 of
                       (cerr, w2) \<Rightarrow>
                         (if cerr \<noteq> None then
                            Some (None, Wrap cerr ''Failed to create new hugo-page Ingress'')
                          else None, w2))
                  else if err \<noteq> None then
                    (Some (None, Wrap err ''Failed to get hugo-page Ingress''), w1)
                  else (None, w1)) of
              (Some ret, w2) \<Rightarrow> (Returns ret, w2)
            | (None, w2) \<Rightarrow>
                (case clientUpdate (client r) ingress w2 of
                   (uerr, w3) \<Rightarrow>
                     if uerr \<noteq> None then
                       (Returns (None, Wrap uerr ''Failed to update hugo-page Ingress''), w3)
                     else (Returns (Some ingress, None), w3)))))"

subsection \<open>ProxyService (Service)\<close>

definition buildNginxProxyService :: "HugoPage \<Rightarrow> Scheme \<Rightarrow> Object \<Rightarrow> Object" where
  "buildNginxProxyService page sch service0 =
     (let serviceName = ''nginx-proxy-'' @ page_Name page @ ''-svc'';
          service1 = service0\<lparr>obj_Meta := ObjectMeta0
            \<lparr>om_Name := serviceName,
             om_Namespace := page_Namespace page,
             om_Labels := makeLabels page ''nginx-proxy''\<rparr>\<rparr>;
          service2 = service1\<lparr>obj_Spec := OfService
            \<lparr>svc_Selector = makeLabels page ''nginx-proxy'',
             svc_Ports =
               [\<lparr>sp_Name = ''nginx'', sp_Protocol = ''TCP'', sp_Port = 80, sp_TargetPort = 80\<rparr>]\<rparr>\<rparr>
      in snd (SetControllerReference page service2 sch))"

fun upsertNginxProxyService ::
  "'s HugoPageReconciler \<Rightarrow> HugoPage option \<Rightarrow> 's World \<Rightarrow> 's upsert_result" where
  "upsertNginxProxyService r None w = (Panics NilPointerDereference, w)"
| "upsertNginxProxyService r (Some page) w =
     (let serviceName = ''nginx-proxy-'' @ page_Name page @ ''-svc'' in
      case clientGet (client r) ServiceKind
             \<lparr>nn_Namespace = page_Namespace page, nn_Name = serviceName\<rparr> w of
        ((err, read), w1) \<Rightarrow>
          (let service = buildNginxProxyService page (scheme r) read in
           (case (if err \<noteq> None \<and> IsNotFound err then
                    (case clientCreate (client r) service w1 of
                       (cerr, w2) \<Rightarrow>
                         (if cerr \<noteq> None then
                            Some (None, Wrap cerr ''Failed to create new hugo-page nginx service'')
                          else None, w2))
                  else if err \<noteq> None then
                    (Some (None, Wrap err ''Failed to get hugo-page nginx service''), w1)
                  else (None, w1)) of
              (Some ret, w2) \<Rightarrow> (Returns ret, w2)
            | (None, w2) \<Rightarrow>
                (case clientUpdate (client r) service w2 of
                   (uerr, w3) \<Rightarrow>
                     if uerr \<noteq> None then
                       (Returns (None, Wrap uerr ''Failed to update hugo-page nginx service''), w3)
                     else (Returns (Some service, None), w3)))))"

subsection \<open>ProxyWorkload (Deployment)\<close>

definition buildPageNginxProxy :: "HugoPage \<Rightarrow> Setting \<Rightarrow> Scheme \<Rightarrow> Object \<Rightarrow> Object" where
  "buildPageNginxProxy page settings sch deployment0 =
     (let deploymentName = ''nginx-proxy-'' @ page_Name page;
          labels = makeLabels page ''nginx-proxy'';
          deployment1 = deployment0\<lparr>obj_Meta := ObjectMeta0
            \<lparr>om_Name := deploymentName,
             om_Namespace := page_Namespace page,
             om_Labels := labels\<rparr>\<rparr>;
          deployment2 = deployment1\<lparr>obj_Spec := OfDeployment
            \<lparr>dp_Selector = labels,
             dp_Replicas = Some (st_NginxProxyReplica (set_Spec settings)),
             dp_TemplateLabels = labels,
             dp_TemplateSpec =
               \<lparr>pod_RestartPolicy = [],
                pod_Containers =
                  [\<lparr>c_Name = ''nginx'',
                    c_Image = ''nginx:alpine'',
                    c_Env = [],
                    c_Ports = [80],
                    c_VolumeMounts =
                      [\<lparr>vm_Name = ''nginx-config'',
                        vm_MountPath = ''/etc/nginx/nginx.conf'',
                        vm_SubPath = ''nginx.conf'',
                        vm_ReadOnly = True\<rparr>]\<rparr>],
                pod_Volumes =
                  [\<lparr>v_Name = ''nginx-config'',
                    v_ConfigMapName = ''nginx-proxy-conf-'' @ page_Name page\<rparr>]\<rparr>\<rparr>\<rparr>
      in snd (SetControllerReference page deployment2 sch))"

fun upsertPageNginxProxy ::
  "'s HugoPageReconciler \<Rightarrow> HugoPage option \<Rightarrow> Setting \<Rightarrow> 's World \<Rightarrow> 's upsert_result" where
  "upsertPageNginxProxy r None settings w = (Panics NilPointerDereference, w)"
| "upsertPageNginxProxy r (Some page) settings w =
     (let deploymentName = ''nginx-proxy-'' @ page_Name page in
      case clientGet (client r) DeploymentKind
             \<lparr>nn_Namespace = page_Namespace page, nn_Name = deploymentName\<rparr> w of
        ((err, read), w1) \<Rightarrow>
          (let deployment = buildPageNginxProxy page settings (scheme r) read in
           (case (if err \<noteq> None \<and> IsNotFound err then
                    (case clientCreate (client r) deployment w1 of
                       (cerr, w2) \<Rightarrow>
                         (if cerr \<noteq> None then
                            Some (None, Wrap cerr ''Failed to create new hugo-page nginx proxy deployment'')
                          else None, w2))
                  else if err \<noteq> None then
                    (Some (None, Wrap err ''Failed to get hugo-page nginx proxy deployment''), w1)
                  else (None, w1)) of
              (Some ret, w2) \<Rightarrow> (Returns ret, w2)
            | (None, w2) \<Rightarrow>
                (case clientUpdate (client r) deployment w2 of
                   (uerr, w3) \<Rightarrow>
                     if uerr \<noteq> None then
                       (Returns (None, Wrap uerr ''Failed to update hugo-page nginx proxy deployment''), w3)
                     else (Returns (Some deployment, None), w3)))))"

subsection \<open>ConfigArtifact (ConfigMap)\<close>

text \<open>
  The part of \<open>upsertConfigMap\<close> after the template has compiled: the values handed to the
  template, its execution, the \<open>Data\<close> field and the owner reference.
\<close>

definition buildConfigMap :: "HugoPage \<Rightarrow> Setting \<Rightarrow> Scheme \<Rightarrow> Node list \<Rightarrow> Object \<Rightarrow> Object" where
  "buildConfigMap page settings sch tmpl configMap0 =
     (let configMapName = ''nginx-proxy-conf-'' @ page_Name page;
          configMap1 = configMap0\<lparr>obj_Meta := ObjectMeta0
            \<lparr>om_Name := configMapName,
             om_Namespace := page_Namespace page,
             om_Labels := makeLabels page ''nginx-proxy''\<rparr>\<rparr>;
          proxyUrl0 = st_ProxyURL (set_Spec settings);
          proxyUrl = (if proxyUrl0 = [] then s3_Endpoint (st_S3Config (set_Spec settings)) else proxyUrl0);
          nginxValue =
            [''S3_URL'' \<mapsto> proxyUrl,
             ''BUCKET_NAME'' \<mapsto> s3_BucketName (st_S3Config (set_Spec settings)),
             ''PAGE_NAME'' \<mapsto> page_Name page];
          nginxConf = Execute tmpl nginxValue;
          configMap2 = configMap1\<lparr>obj_Spec := OfConfigMap [''nginx.conf'' \<mapsto> nginxConf]\<rparr>
      in snd (SetControllerReference page configMap2 sch))"

text \<open>
  In the read-failure branch the source wraps \<open>err\<close>, the result of compiling the
  template, which is nil once that check has passed; the read's own error is
  \<open>clientErr\<close>.
\<close>

fun upsertConfigMap ::
  "'s HugoPageReconciler \<Rightarrow> HugoPage option \<Rightarrow> Setting \<Rightarrow> 's World \<Rightarrow> 's upsert_result" where
  "upsertConfigMap r None settings w = (Panics NilPointerDereference, w)"
| "upsertConfigMap r (Some page) settings w =
     (let configMapName = ''nginx-proxy-conf-'' @ page_Name page in
      case clientGet (client r) ConfigMapKind
             \<lparr>nn_Namespace = page_Namespace page, nn_Name = configMapName\<rparr> w of
        ((clientErr, read), w1) \<Rightarrow>
          (case Parse nginxConfTemplate of
             Inl perr \<Rightarrow> (Returns (None, Wrap (Some perr) ''Unable to compile nginx.conf template''), w1)
           | Inr tmpl \<Rightarrow>
               (let err = (None :: error option);
                    configMap = buildConfigMap page settings (scheme r) tmpl read in
                (case (if clientErr \<noteq> None \<and> IsNotFound clientErr then
                         (case clientCreate (client r) configMap w1 of
                            (cerr, w2) \<Rightarrow>
                              (if cerr \<noteq> None then
                                 Some (None, Wrap cerr ''Failed to create new hugo-page nginx proxy config'')
                               else None, w2))
                       else if clientErr \<noteq> None then
                         (Some (None, Wrap err ''Failed to get hugo-page nginx proxy proxy config''), w1)
                       else (None, w1)) of
                   (Some ret, w2) \<Rightarrow> (Returns ret, w2)
                 | (None, w2) \<Rightarrow>
                     (case clientUpdate (client r) configMap w2 of
                        (uerr, w3) \<Rightarrow>
                          if uerr \<noteq> None then
                            (Returns (None, Wrap uerr ''Failed to update hugo-page nginx proxy proxy config''), w3)
                          else (Returns (Some configMap, None), w3))))))"

section \<open>Reconciler\<close>

text \<open>
  \<open>Reconcile\<close>. After fetching the page, the source's \<open>if err != nil || page == nil\<close> only
  logs and goes on, so it leaves no branch here. The fetch of the settings ends in
  \<open>RecordPanic\<close> when \<open>err != nil || settings == nil\<close>. Each failed upsert returns a
  requeue after one minute with the upsert's error. Telemetry (the duration histogram,
  spans and log lines) is left out.
\<close>

definition Reconcile ::
  "'s HugoPageReconciler \<Rightarrow> NamespacedName \<Rightarrow> 's World \<Rightarrow> (Result \<times> error option) outcome \<times> 's World" where
  "Reconcile r req w =
     (case HugoPageClient_GetNamespaced (pageClient r) req w of
        ((page, perr), w1) \<Rightarrow>
          (case SettingsClient_GetNameNamespace (settingClient r) (settingName r) (nn_Namespace req) w1 of
             ((settingsOpt, serr), w2) \<Rightarrow>
               (case (if serr \<noteq> None then None else settingsOpt) of
                  None \<Rightarrow> (Panics LoggerPanic, w2)
                | Some settings \<Rightarrow>
                    (case upsertPageBuilderCronJob r page settings w2 of
                       (Panics p, w3) \<Rightarrow> (Panics p, w3)
                     | (Returns (x, err), w3) \<Rightarrow>
                    if err \<noteq> None then
                      (Returns (\<lparr>Requeue = True, RequeueAfter = 1 * Minute\<rparr>, err), w3)
                    else
                    (case upsertConfigMap r page settings w3 of
                       (Panics p, w4) \<Rightarrow> (Panics p, w4)
                     | (Returns (x, err), w4) \<Rightarrow>
                    if err \<noteq> None then
                      (Returns (\<lparr>Requeue = True, RequeueAfter = 1 * Minute\<rparr>, err), w4)
                    else
                    (case upsertPageNginxProxy r page settings w4 of
                       (Panics p, w5) \<Rightarrow> (Panics p, w5)
                     | (Returns (x, err), w5) \<Rightarrow>
                    if err \<noteq> None then
                      (Returns (\<lparr>Requeue = True, RequeueAfter = 1 * Minute\<rparr>, err), w5)
                    else
                    (case upsertNginxProxyService r page w5 of
                       (Panics p, w6) \<Rightarrow> (Panics p, w6)
                     | (Returns (x, err), w6) \<Rightarrow>
                    if err \<noteq> None then
                      (Returns (\<lparr>Requeue = True, RequeueAfter = 1 * Minute\<rparr>, err), w6)
                    else
                    (case upsertPageIngress r page settings w6 of
                       (Panics p, w7) \<Rightarrow> (Panics p, w7)
                     | (Returns (x, err), w7) \<Rightarrow>
                    if err \<noteq> None then
                      (Returns (\<lparr>Requeue = True, RequeueAfter = 1 * Minute\<rparr>, err), w7)
                    else (Returns (Result0, None), w7)))))))))"

section \<open>The five child kinds, uniformly\<close>

fun upsertChild ::
  "Kind \<Rightarrow> 's HugoPageReconciler \<Rightarrow> HugoPage option \<Rightarrow> Setting \<Rightarrow> 's World \<Rightarrow> 's upsert_result" where
  "upsertChild CronJobKind r page settings w = upsertPageBuilderCronJob r page settings w"
| "upsertChild ConfigMapKind r page settings w = upsertConfigMap r page settings w"
| "upsertChild DeploymentKind r page settings w = upsertPageNginxProxy r page settings w"
| "upsertChild ServiceKind r page settings w = upsertNginxProxyService r page w"
| "upsertChild IngressKind r page settings w = upsertPageIngress r page settings w"

text \<open>The deterministic name under which each child kind is read and written.\<close>

fun childKey :: "Kind \<Rightarrow> HugoPage \<Rightarrow> NamespacedName" where
  "childKey CronJobKind page = \<lparr>nn_Namespace = page_Namespace page, nn_Name = page_Name page\<rparr>"
| "childKey ConfigMapKind page =
     \<lparr>nn_Namespace = page_Namespace page, nn_Name = ''nginx-proxy-conf-'' @ page_Name page\<rparr>"
| "childKey DeploymentKind page =
     \<lparr>nn_Namespace = page_Namespace page, nn_Name = ''nginx-proxy-'' @ page_Name page\<rparr>"
| "childKey ServiceKind page =
     \<lparr>nn_Namespace = page_Namespace page, nn_Name = ''nginx-proxy-'' @ page_Name page @ ''-svc''\<rparr>"
| "childKey IngressKind page = \<lparr>nn_Namespace = page_Namespace page, nn_Name = page_Name page\<rparr>"

text \<open>The text around the three substitution points of \<open>nginxConfTemplate\<close>.\<close>

definition nginxConfHead :: string where
  \<open>nginxConfHead =
     ''user  nginx;\<newline>'' @
     ''worker_processes  1;\<newline>'' @
     ''error_log  /var/log/nginx/error.log warn;\<newline>'' @
     ''pid        /var/run/nginx.pid;\<newline>'' @
     ''events {\<newline>'' @
     [CHR 0x09] @ ''worker_connections  1024;\<newline>'' @
     ''}\<newline>'' @
     ''http {\<newline>'' @
     ''  log_format  main   $remote_addr - $remote_user [$time_local] "$request" $status $body_bytes_sent "$http_referer" "$http_user_agent" "$http_x_forwarded_for";\<newline>'' @
     ''  include            /etc/nginx/mime.types;\<newline>'' @
     ''  default_type       application/octet-stream;\<newline>'' @
     ''  access_log         /var/log/nginx/access.log  main;\<newline>'' @
     ''  sendfile           on;\<newline>'' @
     ''  keepalive_timeout  65;\<newline>'' @
     ''  server {\<newline>'' @
     [CHR 0x09] @ ''listen 80;\<newline>'' @
     [CHR 0x09] @ ''listen [::]:80;\<newline>'' @
     ''\<newline>'' @
     [CHR 0x09] @ ''server_name _;\<newline>'' @
     [CHR 0x09] @ ''resolver kube-dns.kube-system.svc.cluster.local valid=5s;\<newline>'' @
     ''\<newline>'' @
     [CHR 0x09] @ ''location /healthz {\<newline>'' @
     [CHR 0x09] @ ''  return 200;\<newline>'' @
     [CHR 0x09] @ ''}\<newline>'' @
     ''\<newline>'' @
     [CHR 0x09] @ ''location / {\<newline>'' @
     [CHR 0x09] @ ''  rewrite ^(.*)(?!index'' @ [CHR 0x5C] @ ''.html)$ $1/index.html last;\<newline>'' @
     [CHR 0x09] @ ''  proxy_pass ''\<close>

definition nginxConfTail :: string where
  \<open>nginxConfTail =
     '';\<newline>'' @
     [CHR 0x09] @ ''  proxy_redirect off;\<newline>'' @
     [CHR 0x09] @ ''  proxy_intercept_errors on;\<newline>'' @
     [CHR 0x09] @ ''  proxy_set_header Host $http_host;\<newline>'' @
     [CHR 0x09] @ ''  proxy_set_header X-Real-IP $remote_addr;\<newline>'' @
     [CHR 0x09] @ ''  proxy_set_header X-Forwarded-For $proxy_add_x_forwarded_for;\<newline>'' @
     [CHR 0x09] @ ''  proxy_set_header X-Forwarded-Proto $scheme;\<newline>'' @
     [CHR 0x09] @ ''}\<newline>'' @
     ''  }\<newline>'' @
     ''}\<newline>''\<close>

definition nginxConfNodes :: "Node list" where
  "nginxConfNodes =
     [TextNode nginxConfHead, FieldNode ''S3_URL'', TextNode ''/'', FieldNode ''BUCKET_NAME'',
      TextNode ''/'', FieldNode ''PAGE_NAME'', TextNode (''/'' @ nginxConfTail)]"

text \<open>The object each upsert sends, given the object its read delivered.\<close>

fun desiredChild :: "Kind \<Rightarrow> HugoPage \<Rightarrow> Setting \<Rightarrow> Scheme \<Rightarrow> Object \<Rightarrow> Object" where
  "desiredChild CronJobKind page settings sch read = buildPageBuilderCronJob page settings sch read"
| "desiredChild ConfigMapKind page settings sch read = buildConfigMap page settings sch nginxConfNodes read"
| "desiredChild DeploymentKind page settings sch read = buildPageNginxProxy page settings sch read"
| "desiredChild ServiceKind page settings sch read = buildNginxProxyService page sch read"
| "desiredChild IngressKind page settings sch read = buildPageIngress page settings sch read"

text \<open>
  The shape the five upserts share, with what differs between them as parameters: the
  key, the desired object, the error returned when the read fails, and the two messages.
\<close>

definition commitChild ::
  "'s Client \<Rightarrow> Kind \<Rightarrow> NamespacedName \<Rightarrow> (Object \<Rightarrow> Object) \<Rightarrow> (error option \<Rightarrow> error option)
     \<Rightarrow> string \<Rightarrow> string \<Rightarrow> 's World \<Rightarrow> 's upsert_result" where
  "commitChild c k key build wrapGet createMsg updateMsg w =
     (case clientGet c k key w of
        ((err, read), w1) \<Rightarrow>
          (case (if err \<noteq> None \<and> IsNotFound err then
                   (case clientCreate c (build read) w1 of
                      (cerr, w2) \<Rightarrow>
                        (if cerr \<noteq> None then Some (None, Wrap cerr createMsg) else None, w2))
                 else if err \<noteq> None then (Some (None, wrapGet err), w1)
                 else (None, w1)) of
             (Some ret, w2) \<Rightarrow> (Returns ret, w2)
           | (None, w2) \<Rightarrow>
               (case clientUpdate c (build read) w2 of
                  (uerr, w3) \<Rightarrow>
                    if uerr \<noteq> None then (Returns (None, Wrap uerr updateMsg), w3)
                    else (Returns (Some (build read), None), w3))))"

fun getFailure :: "Kind \<Rightarrow> error option \<Rightarrow> error option" where
  "getFailure CronJobKind err = Wrap err ''Failed to get page-builder CronJob''"
| "getFailure ConfigMapKind err = None"
| "getFailure DeploymentKind err = Wrap err ''Failed to get hugo-page nginx proxy deployment''"
| "getFailure ServiceKind err = Wrap err ''Failed to get hugo-page nginx service''"
| "getFailure IngressKind err = Wrap err ''Failed to get hugo-page Ingress''"

fun createMsg :: "Kind \<Rightarrow> string" where
  "createMsg CronJobKind = ''Failed to create new page-builder CronJob''"
| "createMsg ConfigMapKind = ''Failed to create new hugo-page nginx proxy config''"
| "createMsg DeploymentKind = ''Failed to create new hugo-page nginx proxy deployment''"
| "createMsg ServiceKind = ''Failed to create new hugo-page nginx service''"
| "createMsg IngressKind = ''Failed to create new hugo-page Ingress''"

fun updateMsg :: "Kind \<Rightarrow> string" where
  "updateMsg CronJobKind = ''Failed to update page-builder CronJob''"
| "updateMsg ConfigMapKind = ''Failed to update hugo-page nginx proxy proxy config''"
| "updateMsg DeploymentKind = ''Failed to update hugo-page nginx proxy deployment''"
| "updateMsg ServiceKind = ''Failed to update hugo-page nginx service''"
| "updateMsg IngressKind = ''Failed to update hugo-page Ingress''"

subsection \<open>Reading the trace\<close>

fun isWrite :: "Call \<Rightarrow> bool" where
  "isWrite (CreateCall obj) = True"
| "isWrite (UpdateCall obj) = True"
| "isWrite (GetHugoPageCall key) = False"
| "isWrite (GetSettingCall key) = False"
| "isWrite (GetCall k key) = False"

text \<open>The calls made between two worlds, and the writes among them.\<close>

definition newCalls :: "'s World \<Rightarrow> 's World \<Rightarrow> Call list" where
  "newCalls w w' = drop (length (calls w)) (calls w')"

definition writesIssued :: "'s World \<Rightarrow> 's World \<Rightarrow> Call list" where
  "writesIssued w w' = filter isWrite (newCalls w w')"

text \<open>The controller reference \<open>SetControllerReference\<close> builds for a page.\<close>

definition controllerRef :: "string \<times> string \<Rightarrow> HugoPage \<Rightarrow> OwnerReference" where
  "controllerRef gvk page =
     \<lparr>or_APIVersion = fst gvk, or_Kind = snd gvk, or_Name = page_Name page,
      or_UID = om_UID (page_Meta page), or_Controller = Some True,
      or_BlockOwnerDeletion = Some True\<rparr>"

definition refersTo :: "OwnerReference \<Rightarrow> HugoPage \<Rightarrow> bool" where
  "refersTo ref page = (or_Name ref = page_Name page \<and> or_UID ref = om_UID (page_Meta page))"

fun ingressTLS :: "Object \<Rightarrow> IngressTLS list" where
  "ingressTLS obj = (case obj_Spec obj of OfIngress s \<Rightarrow> ing_TLS s | _ \<Rightarrow> [])"

fun serviceSelector :: "Object \<Rightarrow> (string \<rightharpoonup> string) option" where
  "serviceSelector obj = (case obj_Spec obj of OfService s \<Rightarrow> Some (svc_Selector s) | _ \<Rightarrow> None)"

fun podTemplateLabels :: "Object \<Rightarrow> (string \<rightharpoonup> string) option" where
  "podTemplateLabels obj = (case obj_Spec obj of OfDeployment s \<Rightarrow> Some (dp_TemplateLabels s) | _ \<Rightarrow> None)"

fun configMapData :: "Object \<Rightarrow> (string \<rightharpoonup> string) option" where
  "configMapData obj = (case obj_Spec obj of OfConfigMap d \<Rightarrow> Some d | _ \<Rightarrow> None)"

subsection \<open>The reconciler's step 3 in the words of the specification\<close>

text \<open>
  Go through the child kinds in the order given; on the first failure stop, report the
  error and ask for a retry after one minute; when none fails, no retry and no error.
\<close>

fun spec_upsertInOrder ::
  "Kind list \<Rightarrow> 's HugoPageReconciler \<Rightarrow> HugoPage option \<Rightarrow> Setting \<Rightarrow> 's World
     \<Rightarrow> (Result \<times> error option) outcome \<times> 's World" where
  "spec_upsertInOrder [] r page settings w = (Returns (\<lparr>Requeue = False, RequeueAfter = 0\<rparr>, None), w)"
| "spec_upsertInOrder (k # ks) r page settings w =
     (case upsertChild k r page settings w of
        (Panics p, w') \<Rightarrow> (Panics p, w')
      | (Returns (x, Some e), w') \<Rightarrow>
          (Returns (\<lparr>Requeue = True, RequeueAfter = 60 * 1000000000\<rparr>, Some e), w')
      | (Returns (x, None), w') \<Rightarrow> spec_upsertInOrder ks r page settings w')"

text \<open>The proxy target and the secret name as the specification words them.\<close>

definition spec_proxyTarget :: "string \<Rightarrow> string \<Rightarrow> string \<Rightarrow> string" where
  "spec_proxyTarget endpoint bucket site = endpoint @ ''/'' @ bucket @ ''/'' @ site @ ''/''"

definition spec_effectiveEndpoint :: "Setting \<Rightarrow> string" where
  "spec_effectiveEndpoint settings =
     (if st_ProxyURL (set_Spec settings) \<noteq> [] then st_ProxyURL (set_Spec settings)
      else s3_Endpoint (st_S3Config (set_Spec settings)))"

definition dotsToDashes :: "string \<Rightarrow> string" where
  "dotsToDashes s = map (\<lambda>c. if c = CHR ''.'' then CHR ''-'' else c) s"

definition spec_renderProxyConfig :: "string \<Rightarrow> string \<Rightarrow> string \<Rightarrow> string" where
  "spec_renderProxyConfig endpoint bucket site =
     nginxConfHead @ spec_proxyTarget endpoint bucket site @ nginxConfTail"

text \<open>
  A service selects the pods of its own namespace whose labels contain every pair of its
  selector. The pods of a workload live in the workload's namespace and carry the labels
  of its pod template.
\<close>

definition selects :: "Object \<Rightarrow> Object \<Rightarrow> bool" where
  "selects service deployment =
     (case (serviceSelector service, podTemplateLabels deployment) of
        (Some selector, Some labels) \<Rightarrow>
          om_Namespace (obj_Meta service) = om_Namespace (obj_Meta deployment)
          \<and> selector \<subseteq>\<^sub>m labels
      | _ \<Rightarrow> False)"

text \<open>One step of the reconciler's chain: what follows an upsert.\<close>

definition requeueStep ::
  "'s upsert_result \<Rightarrow> ('s World \<Rightarrow> (Result \<times> error option) outcome \<times> 's World)
     \<Rightarrow> (Result \<times> error option) outcome \<times> 's World" where
  "requeueStep u rest =
     (case u of
        (Panics p, w') \<Rightarrow> (Panics p, w')
      | (Returns (x, Some e), w') \<Rightarrow>
          (Returns (\<lparr>Requeue = True, RequeueAfter = 60 * 1000000000\<rparr>, Some e), w')
      | (Returns (x, None), w') \<Rightarrow> rest w')"

section \<open>An in-memory entity store\<close>

text \<open>
  A store that keeps pages, settings and child resources in maps by kind, namespace and
  name. \<open>Get\<close> of an absent key reports not-found and leaves the caller's object at its zero
  value, \<open>Create\<close> of a present key reports already-exists, \<open>Update\<close> of an absent key
  reports not-found. \<open>faults\<close> lets a call fail before it touches the store.
\<close>

record MemStore =
  ms_pages :: "NamespacedName \<rightharpoonup> HugoPage"
  ms_settings :: "NamespacedName \<rightharpoonup> Setting"
  ms_objects :: "Kind \<times> NamespacedName \<rightharpoonup> Object"

definition objectKey :: "Object \<Rightarrow> NamespacedName" where
  "objectKey obj = \<lparr>nn_Namespace = om_Namespace (obj_Meta obj), nn_Name = om_Name (obj_Meta obj)\<rparr>"

definition memGetHugoPage ::
  "(Call \<Rightarrow> error option) \<Rightarrow> NamespacedName \<Rightarrow> MemStore \<Rightarrow> (error option \<times> HugoPage) \<times> MemStore" where
  "memGetHugoPage faults key s =
     (case faults (GetHugoPageCall key) of
        Some e \<Rightarrow> ((Some e, HugoPage0), s)
      | None \<Rightarrow>
          (case ms_pages s key of
             None \<Rightarrow> ((Some (StatusError NotFound), HugoPage0), s)
           | Some page \<Rightarrow> ((None, page), s)))"

definition memGetSetting ::
  "(Call \<Rightarrow> error option) \<Rightarrow> NamespacedName \<Rightarrow> MemStore \<Rightarrow> (error option \<times> Setting) \<times> MemStore" where
  "memGetSetting faults key s =
     (case faults (GetSettingCall key) of
        Some e \<Rightarrow> ((Some e, Setting0), s)
      | None \<Rightarrow>
          (case ms_settings s key of
             None \<Rightarrow> ((Some (StatusError NotFound), Setting0), s)
           | Some setting \<Rightarrow> ((None, setting), s)))"

definition memGet ::
  "(Call \<Rightarrow> error option) \<Rightarrow> Kind \<Rightarrow> NamespacedName \<Rightarrow> MemStore \<Rightarrow> (error option \<times> Object) \<times> MemStore" where
  "memGet faults k key s =
     (case faults (GetCall k key) of
        Some e \<Rightarrow> ((Some e, Object0), s)
      | None \<Rightarrow>
          (case ms_objects s (k, key) of
             None \<Rightarrow> ((Some (StatusError NotFound), Object0), s)
           | Some obj \<Rightarrow> ((None, obj), s)))"

definition memCreate :: "(Call \<Rightarrow> error option) \<Rightarrow> Object \<Rightarrow> MemStore \<Rightarrow> error option \<times> MemStore" where
  "memCreate faults obj s =
     (case faults (CreateCall obj) of
        Some e \<Rightarrow> (Some e, s)
      | None \<Rightarrow>
          (case kindOfSpec (obj_Spec obj) of
             None \<Rightarrow> (Some (PlainError ''no kind is registered for the object''), s)
           | Some k \<Rightarrow>
               if ms_objects s (k, objectKey obj) \<noteq> None then (Some (StatusError AlreadyExists), s)
               else (None, s\<lparr>ms_objects := (ms_objects s)((k, objectKey obj) \<mapsto> obj)\<rparr>)))"

definition memUpdate :: "(Call \<Rightarrow> error option) \<Rightarrow> Object \<Rightarrow> MemStore \<Rightarrow> error option \<times> MemStore" where
  "memUpdate faults obj s =
     (case faults (UpdateCall obj) of
        Some e \<Rightarrow> (Some e, s)
      | None \<Rightarrow>
          (case kindOfSpec (obj_Spec obj) of
             None \<Rightarrow> (Some (PlainError ''no kind is registered for the object''), s)
           | Some k \<Rightarrow>
               if ms_objects s (k, objectKey obj) = None then (Some (StatusError NotFound), s)
               else (None, s\<lparr>ms_objects := (ms_objects s)((k, objectKey obj) \<mapsto> obj)\<rparr>)))"

definition memClient :: "(Call \<Rightarrow> error option) \<Rightarrow> MemStore Client" where
  "memClient faults =
     \<lparr>cl_GetHugoPage = memGetHugoPage faults,
      cl_GetSetting = memGetSetting faults,
      cl_Get = memGet faults,
      cl_Create = memCreate faults,
      cl_Update = memUpdate faults\<rparr>"

definition noFaults :: "Call \<Rightarrow> error option" where
  "noFaults c = None"

text \<open>The reconciler as \<open>main\<close> builds it: one client for all three roles, the page type registered.\<close>

definition mainScheme :: Scheme where
  "mainScheme = Some (''hugo-hoster.cedi.dev/v1alpha1'', ''HugoPage'')"

definition memReconciler :: "(Call \<Rightarrow> error option) \<Rightarrow> MemStore HugoPageReconciler" where
  "memReconciler faults =
     NewHugoPageReconciler (memClient faults) (memClient faults) (memClient faults) ''settings'' mainScheme"

subsection \<open>Sample entities\<close>

definition samplePage :: HugoPage where
  "samplePage = HugoPage0
     \<lparr>page_Meta := ObjectMeta0\<lparr>om_Name := ''blog'', om_Namespace := ''default'', om_UID := ''uid-1''\<rparr>,
      page_Spec := \<lparr>hp_Repository = ''https://github.com/cedi/cedi.github.io.git'', hp_Branch = ''main'',
        hp_URL = ''docs.example.com'', hp_BuildType = ''cron'', hp_CronInterval = ''*/5 * * * *''\<rparr>\<rparr>"

definition sampleSetting :: Setting where
  "sampleSetting = Setting0
     \<lparr>set_Meta := ObjectMeta0\<lparr>om_Name := ''settings'', om_Namespace := ''default''\<rparr>,
      set_Spec :=
        \<lparr>st_TLS = \<lparr>tls_Enable = True,
           tls_Annotations = [''cert-manager.io/cluster-issuer'' \<mapsto> ''letsencrypt'']\<rparr>,
         st_IngressClassName = ''nginx'',
         st_S3Config = \<lparr>s3_Endpoint = ''https://s3.example.com'', s3_BucketName = ''my-bucket'',
           s3_SecretName = ''s3-credentials'', s3_AccessKeyIDRef = ''AccessKeyId'',
           s3_AccessKeyRef = ''AccessKey''\<rparr>,
         st_ProxyURL = [], st_NginxProxyReplica = 1\<rparr>\<rparr>"

definition sampleKey :: NamespacedName where
  "sampleKey = \<lparr>nn_Namespace = ''default'', nn_Name = ''blog''\<rparr>"

definition settingsKey :: NamespacedName where
  "settingsKey = \<lparr>nn_Namespace = ''default'', nn_Name = ''settings''\<rparr>"

definition emptyStore :: MemStore where
  "emptyStore = \<lparr>ms_pages = Map.empty, ms_settings = Map.empty, ms_objects = Map.empty\<rparr>"

definition world0 :: "MemStore \<Rightarrow> MemStore World" where
  "world0 s = \<lparr>store = s, calls = []\<rparr>"

definition storeWithSettings :: MemStore where
  "storeWithSettings = emptyStore\<lparr>ms_settings := [settingsKey \<mapsto> sampleSetting]\<rparr>"

definition storeWithPage :: MemStore where
  "storeWithPage = emptyStore\<lparr>ms_pages := [sampleKey \<mapsto> samplePage]\<rparr>"

definition storeWithBoth :: MemStore where
  "storeWithBoth = emptyStore\<lparr>ms_pages := [sampleKey \<mapsto> samplePage],
     ms_settings := [settingsKey \<mapsto> sampleSetting]\<rparr>"

text \<open>A store whose reads of child resources are refused.\<close>

fun readsForbidden :: "Call \<Rightarrow> error option" where
  "readsForbidden (GetCall k key) = Some (StatusError Forbidden)"
| "readsForbidden (GetHugoPageCall key) = None"
| "readsForbidden (GetSettingCall key) = None"
| "readsForbidden (CreateCall obj) = None"
| "readsForbidden (UpdateCall obj) = None"

subsection \<open>Cascade deletion\<close>

text \<open>
  Deleting a page the way the orchestration runtime's garbage collector does: the page
  goes, and with it every object that has owners and whose owners all are that page.
\<close>

definition cascadeDelete :: "HugoPage \<Rightarrow> MemStore \<Rightarrow> MemStore" where
  "cascadeDelete page s =
     s\<lparr>ms_pages := (ms_pages s)
          (\<lparr>nn_Namespace = page_Namespace page, nn_Name = page_Name page\<rparr> := None),
       ms_objects := (\<lambda>key.
          case ms_objects s key of
            None \<Rightarrow> None
          | Some obj \<Rightarrow>
              if om_OwnerReferences (obj_Meta obj) \<noteq> []
                 \<and> list_all (\<lambda>ref. refersTo ref page) (om_OwnerReferences (obj_Meta obj))
              then None else Some obj)\<rparr>"

section \<open>Facts about the model\<close>

subsection \<open>The template compiles\<close>

lemma Parse_nginxConfTemplate: "Parse nginxConfTemplate = Inr nginxConfNodes"
  by code_simp

subsection \<open>Each upsert has the shared shape\<close>

lemma upsertPageBuilderCronJob_shape:
  "upsertPageBuilderCronJob r (Some page) settings w =
     commitChild (client r) CronJobKind (childKey CronJobKind page)
       (desiredChild CronJobKind page settings (scheme r)) (getFailure CronJobKind)
       (createMsg CronJobKind) (updateMsg CronJobKind) w"
  by (simp add: commitChild_def Let_def split: prod.splits)

lemma upsertConfigMap_shape:
  "upsertConfigMap r (Some page) settings w =
     commitChild (client r) ConfigMapKind (childKey ConfigMapKind page)
       (desiredChild ConfigMapKind page settings (scheme r)) (getFailure ConfigMapKind)
       (createMsg ConfigMapKind) (updateMsg ConfigMapKind) w"
  by (simp add: commitChild_def Let_def Parse_nginxConfTemplate split: prod.splits)

lemma upsertPageNginxProxy_shape:
  "upsertPageNginxProxy r (Some page) settings w =
     commitChild (client r) DeploymentKind (childKey DeploymentKind page)
       (desiredChild DeploymentKind page settings (scheme r)) (getFailure DeploymentKind)
       (createMsg DeploymentKind) (updateMsg DeploymentKind) w"
  by (simp add: commitChild_def Let_def split: prod.splits)

lemma upsertNginxProxyService_shape:
  "upsertNginxProxyService r (Some page) w =
     commitChild (client r) ServiceKind (childKey ServiceKind page)
       (desiredChild ServiceKind page settings (scheme r)) (getFailure ServiceKind)
       (createMsg ServiceKind) (updateMsg ServiceKind) w"
  by (simp add: commitChild_def Let_def split: prod.splits)

lemma upsertPageIngress_shape:
  "upsertPageIngress r (Some page) settings w =
     commitChild (client r) IngressKind (childKey IngressKind page)
       (desiredChild IngressKind page settings (scheme r)) (getFailure IngressKind)
       (createMsg IngressKind) (updateMsg IngressKind) w"
  by (simp add: commitChild_def Let_def split: prod.splits)

lemma upsertChild_shape:
  "upsertChild k r (Some page) settings w =
     commitChild (client r) k (childKey k page) (desiredChild k page settings (scheme r))
       (getFailure k) (createMsg k) (updateMsg k) w"
  by (cases k)
     (simp_all only: upsertChild.simps upsertPageBuilderCronJob_shape upsertConfigMap_shape
        upsertPageNginxProxy_shape upsertNginxProxyService_shape upsertPageIngress_shape)

subsection \<open>The shared shape, by the result of the read\<close>

lemma newCalls_append [simp]: "newCalls w \<lparr>store = s, calls = calls w @ xs\<rparr> = xs"
  by (simp add: newCalls_def)

lemma commitChild_found:
  assumes "cl_Get c k key (store w) = ((None, read), s1)"
  shows "commitChild c k key build wg cm um w =
     (case cl_Update c (build read) s1 of
        (uerr, s3) \<Rightarrow>
          (if uerr \<noteq> None then Returns (None, Wrap uerr um) else Returns (Some (build read), None),
           \<lparr>store = s3, calls = calls w @ [GetCall k key, UpdateCall (build read)]\<rparr>))"
  using assms by (simp add: commitChild_def clientGet_def clientUpdate_def split: prod.splits)

lemma commitChild_notfound:
  assumes "cl_Get c k key (store w) = ((Some e, read), s1)" and "IsNotFound (Some e)"
  shows "commitChild c k key build wg cm um w =
     (case cl_Create c (build read) s1 of
        (cerr, s2) \<Rightarrow>
          if cerr \<noteq> None then
            (Returns (None, Wrap cerr cm),
             \<lparr>store = s2, calls = calls w @ [GetCall k key, CreateCall (build read)]\<rparr>)
          else
            (case cl_Update c (build read) s2 of
               (uerr, s3) \<Rightarrow>
                 (if uerr \<noteq> None then Returns (None, Wrap uerr um) else Returns (Some (build read), None),
                  \<lparr>store = s3,
                    calls = calls w @ [GetCall k key, CreateCall (build read), UpdateCall (build read)]\<rparr>)))"
  using assms
  by (simp add: commitChild_def clientGet_def clientCreate_def clientUpdate_def split: prod.splits)

lemma commitChild_failed:
  assumes "cl_Get c k key (store w) = ((Some e, read), s1)" and "\<not> IsNotFound (Some e)"
  shows "commitChild c k key build wg cm um w =
     (Returns (None, wg (Some e)), \<lparr>store = s1, calls = calls w @ [GetCall k key]\<rparr>)"
  using assms by (simp add: commitChild_def clientGet_def split: prod.splits)


subsection \<open>Owner references and desired objects\<close>

lemma ReplaceAll_dot_dash: "ReplaceAll s ''.'' ''-'' = dotsToDashes s"
proof (induction s)
  case Nil
  show ?case by (simp add: ReplaceAll.simps [of "[]"] dotsToDashes_def)
next
  case (Cons c s)
  then show ?case
    by (simp add: ReplaceAll.simps [of "c # s"] dotsToDashes_def)
qed

lemma SetControllerReference_obj:
  "snd (SetControllerReference page obj sch) = obj
   \<or> (\<exists>refs. snd (SetControllerReference page obj sch) =
        obj\<lparr>obj_Meta := (obj_Meta obj)\<lparr>om_OwnerReferences := refs\<rparr>\<rparr>)"
  by (auto simp: SetControllerReference_def Let_def split: option.splits prod.splits)

lemma SetControllerReference_spec [simp]:
  "obj_Spec (snd (SetControllerReference page obj sch)) = obj_Spec obj"
  using SetControllerReference_obj [of page obj sch] by auto

lemma SetControllerReference_rest [simp]:
  "obj_Rest (snd (SetControllerReference page obj sch)) = obj_Rest obj"
  using SetControllerReference_obj [of page obj sch] by auto

lemma SetControllerReference_name [simp]:
  "om_Name (obj_Meta (snd (SetControllerReference page obj sch))) = om_Name (obj_Meta obj)"
  using SetControllerReference_obj [of page obj sch] by auto

lemma SetControllerReference_namespace [simp]:
  "om_Namespace (obj_Meta (snd (SetControllerReference page obj sch))) = om_Namespace (obj_Meta obj)"
  using SetControllerReference_obj [of page obj sch] by auto

lemma SetControllerReference_labels [simp]:
  "om_Labels (obj_Meta (snd (SetControllerReference page obj sch))) = om_Labels (obj_Meta obj)"
  using SetControllerReference_obj [of page obj sch] by auto

lemma SetControllerReference_annotations [simp]:
  "om_Annotations (obj_Meta (snd (SetControllerReference page obj sch))) = om_Annotations (obj_Meta obj)"
  using SetControllerReference_obj [of page obj sch] by auto

lemma SetControllerReference_cong:
  assumes "obj_Meta a = obj_Meta b" "obj_Spec a = obj_Spec b" "obj_Rest a = obj_Rest b"
  shows "SetControllerReference page a sch = SetControllerReference page b sch"
proof -
  from assms have "a = b" by (cases a, cases b) simp
  then show ?thesis by simp
qed

lemma SetControllerReference_fresh:
  assumes "om_Namespace (obj_Meta obj) = page_Namespace page"
      and "om_OwnerReferences (obj_Meta obj) = []"
  shows "om_OwnerReferences (obj_Meta (snd (SetControllerReference page obj (Some (apiVersion, kind))))) =
           [\<lparr>or_APIVersion = apiVersion, or_Kind = kind, or_Name = page_Name page,
             or_UID = om_UID (page_Meta page), or_Controller = Some True,
             or_BlockOwnerDeletion = Some True\<rparr>]"
  using assms by (simp add: SetControllerReference_def validateOwner_def GetControllerOf_def Let_def)

lemma desiredChild_kind [simp]:
  "kindOfSpec (obj_Spec (desiredChild k page settings sch read)) = Some k"
  by (cases k)
     (simp_all add: buildPageBuilderCronJob_def buildConfigMap_def buildPageNginxProxy_def
        buildNginxProxyService_def buildPageIngress_def Let_def)

lemma desiredChild_key [simp]:
  "objectKey (desiredChild k page settings sch read) = childKey k page"
  by (cases k)
     (simp_all add: objectKey_def buildPageBuilderCronJob_def buildConfigMap_def buildPageNginxProxy_def
        buildNginxProxyService_def buildPageIngress_def Let_def ObjectMeta0_def)

lemma desiredChild_rest [simp]:
  "obj_Rest (desiredChild k page settings sch read) = obj_Rest read"
  by (cases k)
     (simp_all add: buildPageBuilderCronJob_def buildConfigMap_def buildPageNginxProxy_def
        buildNginxProxyService_def buildPageIngress_def Let_def)

lemma desiredChild_cong:
  assumes "obj_Rest a = obj_Rest b"
  shows "desiredChild k page settings sch a = desiredChild k page settings sch b"
  using assms
  by (cases k)
     (auto simp: buildPageBuilderCronJob_def buildConfigMap_def buildPageNginxProxy_def
        buildNginxProxyService_def buildPageIngress_def Let_def
        intro!: arg_cong [where f = snd] SetControllerReference_cong)

lemma desiredChild_idem:
  "desiredChild k page settings sch (desiredChild k page settings sch read) =
   desiredChild k page settings sch read"
  by (rule desiredChild_cong) simp

lemma desiredChild_owner_refs:
  "om_OwnerReferences (obj_Meta (desiredChild k page settings (Some gvk) read)) = [controllerRef gvk page]"
  by (cases k; cases gvk)
     (simp_all add: controllerRef_def buildPageBuilderCronJob_def buildConfigMap_def buildPageNginxProxy_def
        buildNginxProxyService_def buildPageIngress_def Let_def ObjectMeta0_def
        SetControllerReference_fresh)

subsection \<open>Upserts over the in-memory store\<close>

declare upsertChild.simps [simp del]
declare desiredChild.simps [simp del]

lemma memReconciler_fields [simp]:
  "client (memReconciler f) = memClient f"
  "pageClient (memReconciler f) = memClient f"
  "settingClient (memReconciler f) = memClient f"
  "scheme (memReconciler f) = mainScheme"
  "settingName (memReconciler f) = ''settings''"
  by (simp_all add: memReconciler_def NewHugoPageReconciler_def)

lemma memClient_fields [simp]:
  "cl_GetHugoPage (memClient f) = memGetHugoPage f"
  "cl_GetSetting (memClient f) = memGetSetting f"
  "cl_Get (memClient f) = memGet f"
  "cl_Create (memClient f) = memCreate f"
  "cl_Update (memClient f) = memUpdate f"
  by (simp_all add: memClient_def)

lemma mem_upsert:
  fixes w :: "MemStore World"
  assumes "client r = memClient noFaults"
  shows "upsertChild k r (Some page) settings w =
    (let key = childKey k page;
         old = ms_objects (store w) (k, key);
         d = desiredChild k page settings (scheme r) (case old of None \<Rightarrow> Object0 | Some x \<Rightarrow> x)
     in (Returns (Some d, None),
         \<lparr>store = (store w)\<lparr>ms_objects := (ms_objects (store w))((k, key) \<mapsto> d)\<rparr>,
          calls = calls w @ (GetCall k key #
                    (if old = None then [CreateCall d, UpdateCall d] else [UpdateCall d]))\<rparr>))"
proof (cases "ms_objects (store w) (k, childKey k page)")
  case None
  then have get: "cl_Get (client r) k (childKey k page) (store w) =
      ((Some (StatusError NotFound), Object0), store w)"
    by (simp add: assms memGet_def noFaults_def)
  show ?thesis
    unfolding upsertChild_shape
    by (subst commitChild_notfound [OF get])
       (simp_all add: assms None memCreate_def memUpdate_def noFaults_def Let_def)
next
  case (Some x)
  then have get: "cl_Get (client r) k (childKey k page) (store w) = ((None, x), store w)"
    by (simp add: assms memGet_def noFaults_def)
  show ?thesis
    unfolding upsertChild_shape
    by (subst commitChild_found [OF get])
       (simp_all add: assms Some memUpdate_def noFaults_def Let_def)
qed


subsection \<open>The reconciler's chain\<close>

lemma upsertChild_None [simp]:
  "upsertChild k r None settings w = (Panics NilPointerDereference, w)"
  by (cases k) (simp_all add: upsertChild.simps)

lemma requeueStep_source:
  "(case u of
      (Panics p, w3) \<Rightarrow> (Panics p, w3)
    | (Returns (x, err), w3) \<Rightarrow>
        if err \<noteq> None then (Returns (\<lparr>Requeue = True, RequeueAfter = 1 * Minute\<rparr>, err), w3)
        else rest w3) = requeueStep u rest"
  by (simp add: requeueStep_def Minute_def Second_def Millisecond_def Microsecond_def Nanosecond_def
           split: prod.split outcome.split option.split)

lemma Reconcile_steps:
  "Reconcile r req w =
     (case HugoPageClient_GetNamespaced (pageClient r) req w of
        ((page, perr), w1) \<Rightarrow>
          (case SettingsClient_GetNameNamespace (settingClient r) (settingName r) (nn_Namespace req) w1 of
             ((settingsOpt, serr), w2) \<Rightarrow>
               (case (if serr \<noteq> None then None else settingsOpt) of
                  None \<Rightarrow> (Panics LoggerPanic, w2)
                | Some settings \<Rightarrow>
                    requeueStep (upsertChild CronJobKind r page settings w2) (\<lambda>w3.
                    requeueStep (upsertChild ConfigMapKind r page settings w3) (\<lambda>w4.
                    requeueStep (upsertChild DeploymentKind r page settings w4) (\<lambda>w5.
                    requeueStep (upsertChild ServiceKind r page settings w5) (\<lambda>w6.
                    requeueStep (upsertChild IngressKind r page settings w6) (\<lambda>w7.
                      (Returns (Result0, None), w7)))))))))"
  unfolding Reconcile_def upsertChild.simps requeueStep_source ..

lemma spec_upsertInOrder_step:
  "spec_upsertInOrder (k # ks) r page settings w =
     requeueStep (upsertChild k r page settings w) (spec_upsertInOrder ks r page settings)"
  by (simp add: requeueStep_def)

lemma spec_upsertInOrder_Nil:
  "spec_upsertInOrder [] r page settings = Pair (Returns (\<lparr>Requeue = False, RequeueAfter = 0\<rparr>, None))"
  by (rule ext) simp

lemma Reconcile_fetched:
  assumes "cl_GetHugoPage (pageClient r) req (store w) = ((perr, pg), s1)"
      and "cl_GetSetting (settingClient r)
             \<lparr>nn_Namespace = nn_Namespace req, nn_Name = settingName r\<rparr> s1 = ((None, settings), s2)"
  shows "Reconcile r req w =
     spec_upsertInOrder [CronJobKind, ConfigMapKind, DeploymentKind, ServiceKind, IngressKind] r
       (if perr = None then Some pg else None) settings
       \<lparr>store = s2, calls = calls w @ [GetHugoPageCall req,
          GetSettingCall \<lparr>nn_Namespace = nn_Namespace req, nn_Name = settingName r\<rparr>]\<rparr>"
  using assms
  unfolding Reconcile_steps spec_upsertInOrder_step
  by (simp add: HugoPageClient_GetNamespaced_def SettingsClient_GetNameNamespace_def
        SettingsClient_GetNamespaced_def clientGetHugoPage_def clientGetSetting_def Result0_def
        spec_upsertInOrder_Nil split: option.splits)

lemma upsertChild_error_wrapped:
  assumes "upsertChild k r (Some page) settings w = (Returns (x, Some e), w')"
  shows "\<exists>e0 msg. e = Wrapped e0 msg"
proof -
  obtain gerr read s1 where get:
    "cl_Get (client r) k (childKey k page) (store w) = ((gerr, read), s1)"
    by (metis prod.exhaust)
  show ?thesis
  proof (cases gerr)
    case None
    with get assms show ?thesis
      by (auto simp: upsertChild_shape commitChild_found split: prod.splits if_splits)
  next
    case (Some ge)
    show ?thesis
    proof (cases "IsNotFound (Some ge)")
      case True
      with Some get assms show ?thesis
        by (auto simp: upsertChild_shape commitChild_notfound split: prod.splits if_splits)
    next
      case False
      with Some get assms show ?thesis
        by (cases k) (auto simp: upsertChild_shape commitChild_failed)
    qed
  qed
qed

lemma spec_upsertInOrder_error:
  assumes "spec_upsertInOrder ks r (Some page) settings w = (Returns (res, Some e), w')"
  shows "res = \<lparr>Requeue = True, RequeueAfter = 60000000000\<rparr> \<and> (\<exists>e0 msg. e = Wrapped e0 msg)"
  using assms
proof (induction ks arbitrary: w)
  case Nil
  then show ?case by simp
next
  case (Cons k ks)
  obtain u w1 where u: "upsertChild k r (Some page) settings w = (u, w1)"
    by (metis prod.exhaust)
  show ?case
  proof (cases u)
    case (Panics p)
    with u Cons.prems show ?thesis by simp
  next
    case (Returns ret)
    obtain x err where ret: "ret = (x, err)" by (metis prod.exhaust)
    show ?thesis
    proof (cases err)
      case None
      with u Returns ret Cons.prems have "spec_upsertInOrder ks r (Some page) settings w1 = (Returns (res, Some e), w')"
        by simp
      then show ?thesis by (rule Cons.IH)
    next
      case (Some e1)
      with u Returns ret Cons.prems have "e = e1" "res = \<lparr>Requeue = True, RequeueAfter = 60000000000\<rparr>"
        by simp_all
      moreover from u Returns ret Some have "\<exists>e0 msg. e1 = Wrapped e0 msg"
        using upsertChild_error_wrapped by blast
      ultimately show ?thesis by simp
    qed
  qed
qed

lemma spec_upsertInOrder_success:
  assumes "spec_upsertInOrder ks r page settings w = (Returns (res, None), w')"
  shows "res = \<lparr>Requeue = False, RequeueAfter = 0\<rparr>"
  using assms
  by (induction ks arbitrary: w) (auto split: prod.splits outcome.splits option.splits)

lemma upsertChild_produces:
  assumes run: "upsertChild k r (Some page) settings w = (res, w')"
      and obj: "res = Returns (Some obj, err) \<or> CreateCall obj \<in> set (newCalls w w')
                \<or> UpdateCall obj \<in> set (newCalls w w')"
  shows "\<exists>read. obj = desiredChild k page settings (scheme r) read"
proof -
  obtain gerr read s1 where get:
    "cl_Get (client r) k (childKey k page) (store w) = ((gerr, read), s1)"
    by (metis prod.exhaust)
  have "obj = desiredChild k page settings (scheme r) read"
  proof (cases gerr)
    case None
    with get run obj show ?thesis
      by (auto simp: upsertChild_shape commitChild_found split: prod.splits if_splits)
  next
    case (Some ge)
    show ?thesis
    proof (cases "IsNotFound (Some ge)")
      case True
      with Some get run obj show ?thesis
        by (auto simp: upsertChild_shape commitChild_notfound split: prod.splits if_splits)
    next
      case False
      with Some get run obj show ?thesis
        by (auto simp: upsertChild_shape commitChild_failed)
    qed
  qed
  then show ?thesis ..
qed

subsection \<open>A full pass over the in-memory store, then cascade deletion\<close>

lemma mem_reconcile_children:
  fixes w :: "MemStore World"
  assumes cl: "client r = memClient noFaults" and sch: "scheme r = Some gvk"
      and run: "spec_upsertInOrder [CronJobKind, ConfigMapKind, DeploymentKind, ServiceKind, IngressKind]
                  r (Some page) settings w = (res, w')"
  shows "\<exists>obj. ms_objects (store w') (k, childKey k page) = Some obj
           \<and> om_OwnerReferences (obj_Meta obj) = [controllerRef gvk page]"
  using run
  by (cases k) (auto simp: mem_upsert [OF cl] Let_def sch desiredChild_owner_refs)

lemma cascade_removes_children:
  fixes w :: "MemStore World"
  assumes cl: "client r = memClient noFaults" and sch: "scheme r = Some gvk"
      and run: "spec_upsertInOrder [CronJobKind, ConfigMapKind, DeploymentKind, ServiceKind, IngressKind]
                  r (Some page) settings w = (res, w')"
  shows "ms_objects (cascadeDelete page (store w')) (k, childKey k page) = None"
  using mem_reconcile_children [OF cl sch run, of k]
  by (auto simp: cascadeDelete_def refersTo_def controllerRef_def)

section \<open>Claims\<close>

subsection \<open>C1: a page that is absent\<close>

text \<open>
  C1 says that \<open>Reconcile\<close> returns no-retry and nil when the page does not exist. The
  source logs that it ignores the absent page and then goes on without returning: with
  the settings present and the page absent, the first upsert dereferences the nil page
  and \<open>Reconcile\<close> panics after its two fetches, before any call for a child resource.
\<close>

theorem reconcile_absent_page_panics:
  "Reconcile (memReconciler noFaults) sampleKey (world0 storeWithSettings) =
     (Panics NilPointerDereference,
      \<lparr>store = storeWithSettings, calls = [GetHugoPageCall sampleKey, GetSettingCall settingsKey]\<rparr>)"
proof -
  have page: "cl_GetHugoPage (pageClient (memReconciler noFaults)) sampleKey (store (world0 storeWithSettings)) =
     ((Some (StatusError NotFound), HugoPage0), storeWithSettings)"
    by (simp add: memGetHugoPage_def noFaults_def world0_def storeWithSettings_def emptyStore_def)
  have settings: "cl_GetSetting (settingClient (memReconciler noFaults))
      \<lparr>nn_Namespace = nn_Namespace sampleKey, nn_Name = settingName (memReconciler noFaults)\<rparr>
      storeWithSettings = ((None, sampleSetting), storeWithSettings)"
    by (simp add: memGetSetting_def noFaults_def storeWithSettings_def emptyStore_def
          sampleKey_def settingsKey_def)
  show ?thesis
    using Reconcile_fetched [OF page settings]
    by (simp add: requeueStep_def sampleKey_def settingsKey_def world0_def)
qed

subsection \<open>C2: the writes of one upsert\<close>

text \<open>
  C2 as stated: every upsert issues exactly one write, a create after a not-found read
  and an update otherwise, never both. On an empty store the ScheduledJob upsert reads
  not-found, creates the job and then also updates it: two writes in one invocation.
\<close>

theorem upsert_create_then_update:
  "writesIssued (world0 emptyStore)
     (snd (upsertChild CronJobKind (memReconciler noFaults) (Some samplePage) sampleSetting
             (world0 emptyStore))) =
   [CreateCall (desiredChild CronJobKind samplePage sampleSetting mainScheme Object0),
    UpdateCall (desiredChild CronJobKind samplePage sampleSetting mainScheme Object0)]"
  by (simp add: mem_upsert Let_def world0_def emptyStore_def writesIssued_def newCalls_def)

text \<open>
  C2, amended: in every upsert of any of the five kinds, a read that succeeds is followed
  by exactly one update and no create; a read that reports not-found is followed by a
  create and, when that create succeeds, by an update of the same object; a read that
  fails otherwise is followed by no write.
\<close>

theorem upsert_writes:
  assumes get: "cl_Get (client r) k (childKey k page) (store w) = ((gerr, read), s1)"
      and run: "upsertChild k r (Some page) settings w = (res, w')"
  shows "writesIssued w w' =
     (let obj = desiredChild k page settings (scheme r) read in
      if gerr = None then [UpdateCall obj]
      else if IsNotFound gerr then
        (if fst (cl_Create (client r) obj s1) = None then [CreateCall obj, UpdateCall obj]
         else [CreateCall obj])
      else [])"
proof (cases gerr)
  case None
  with get run show ?thesis
    by (auto simp: upsertChild_shape commitChild_found writesIssued_def split: prod.splits)
next
  case (Some e)
  show ?thesis
  proof (cases "IsNotFound (Some e)")
    case True
    with Some get run show ?thesis
      by (auto simp: upsertChild_shape commitChild_notfound writesIssued_def Let_def
               split: prod.splits if_splits)
  next
    case False
    with Some get run show ?thesis
      by (auto simp: upsertChild_shape commitChild_failed writesIssued_def)
  qed
qed

text \<open>The amended statement at the empty store, where the read reports not-found.\<close>

theorem upsert_writes_witness:
  "cl_Get (client (memReconciler noFaults)) CronJobKind (childKey CronJobKind samplePage)
      (store (world0 emptyStore)) = ((Some (StatusError NotFound), Object0), emptyStore)
   \<and> writesIssued (world0 emptyStore)
       (snd (upsertChild CronJobKind (memReconciler noFaults) (Some samplePage) sampleSetting
             (world0 emptyStore))) =
     [CreateCall (desiredChild CronJobKind samplePage sampleSetting mainScheme Object0),
      UpdateCall (desiredChild CronJobKind samplePage sampleSetting mainScheme Object0)]"
proof -
  have get: "cl_Get (client (memReconciler noFaults)) CronJobKind (childKey CronJobKind samplePage)
      (store (world0 emptyStore)) = ((Some (StatusError NotFound), Object0), emptyStore)"
    by (simp add: memGet_def noFaults_def world0_def emptyStore_def)
  have run: "upsertChild CronJobKind (memReconciler noFaults) (Some samplePage) sampleSetting
      (world0 emptyStore) =
     (fst (upsertChild CronJobKind (memReconciler noFaults) (Some samplePage) sampleSetting
        (world0 emptyStore)),
      snd (upsertChild CronJobKind (memReconciler noFaults) (Some samplePage) sampleSetting
        (world0 emptyStore)))"
    by simp
  show ?thesis
    using get upsert_writes [OF get run]
    by (simp add: memCreate_def noFaults_def emptyStore_def Let_def)
qed

subsection \<open>C3: settings that are absent or unreadable\<close>

text \<open>
  C3: whenever the fetch of the settings named by \<open>settingName\<close> in the request's
  namespace returns an error (not-found or any other), whatever the fetch of the page
  gave, \<open>Reconcile\<close> ends in the logger's panic, and the only calls of the pass are the
  two fetches: no read, create or update of a child resource.
\<close>

theorem reconcile_missing_settings_aborts:
  assumes "cl_GetHugoPage (pageClient r) req (store w) = (pres, s1)"
      and "cl_GetSetting (settingClient r)
             \<lparr>nn_Namespace = nn_Namespace req, nn_Name = settingName r\<rparr> s1 = ((Some e, st), s2)"
  shows "Reconcile r req w =
     (Panics LoggerPanic,
      \<lparr>store = s2, calls = calls w @ [GetHugoPageCall req,
          GetSettingCall \<lparr>nn_Namespace = nn_Namespace req, nn_Name = settingName r\<rparr>]\<rparr>)"
  using assms
  by (cases pres)
     (simp add: Reconcile_def HugoPageClient_GetNamespaced_def SettingsClient_GetNameNamespace_def
        SettingsClient_GetNamespaced_def clientGetHugoPage_def clientGetSetting_def
        split: option.splits)

text \<open>C3 at a store that holds the page and no settings.\<close>

theorem reconcile_missing_settings_aborts_witness:
  "cl_GetHugoPage (pageClient (memReconciler noFaults)) sampleKey (store (world0 storeWithPage)) =
     ((None, samplePage), storeWithPage)
   \<and> cl_GetSetting (settingClient (memReconciler noFaults)) settingsKey storeWithPage =
     ((Some (StatusError NotFound), Setting0), storeWithPage)
   \<and> Reconcile (memReconciler noFaults) sampleKey (world0 storeWithPage) =
     (Panics LoggerPanic,
      \<lparr>store = storeWithPage, calls = [GetHugoPageCall sampleKey, GetSettingCall settingsKey]\<rparr>)"
proof -
  have page: "cl_GetHugoPage (pageClient (memReconciler noFaults)) sampleKey (store (world0 storeWithPage)) =
     ((None, samplePage), storeWithPage)"
    by (simp add: memGetHugoPage_def noFaults_def world0_def storeWithPage_def emptyStore_def)
  have settings: "cl_GetSetting (settingClient (memReconciler noFaults))
      \<lparr>nn_Namespace = nn_Namespace sampleKey, nn_Name = settingName (memReconciler noFaults)\<rparr>
      storeWithPage = ((Some (StatusError NotFound), Setting0), storeWithPage)"
    by (simp add: memGetSetting_def noFaults_def storeWithPage_def emptyStore_def)
  show ?thesis
    using page settings reconcile_missing_settings_aborts [OF page settings]
    by (simp add: sampleKey_def settingsKey_def world0_def)
qed

subsection \<open>C4: order, first failure, retry after one minute\<close>

text \<open>
  C4: once page and settings are fetched, \<open>Reconcile\<close> is the specification's step 3 over
  the order ScheduledJob, ConfigArtifact, ProxyWorkload, ProxyService, Route: it stops at
  the first upsert that returns an error, without attempting a later kind. Whenever it
  returns an error, the result asks for a requeue after exactly one minute
  (60000000000 ns) and the error is a wrapped one; whenever it returns no error, the
  result is no-retry.
\<close>

theorem reconcile_upserts_in_order:
  assumes page: "cl_GetHugoPage (pageClient r) req (store w) = ((None, page), s1)"
      and settings: "cl_GetSetting (settingClient r)
             \<lparr>nn_Namespace = nn_Namespace req, nn_Name = settingName r\<rparr> s1 = ((None, settings), s2)"
  shows "Reconcile r req w =
           spec_upsertInOrder [CronJobKind, ConfigMapKind, DeploymentKind, ServiceKind, IngressKind] r
             (Some page) settings
             \<lparr>store = s2, calls = calls w @ [GetHugoPageCall req,
                GetSettingCall \<lparr>nn_Namespace = nn_Namespace req, nn_Name = settingName r\<rparr>]\<rparr>
         \<and> (\<forall>res e w'. Reconcile r req w = (Returns (res, Some e), w') \<longrightarrow>
               res = \<lparr>Requeue = True, RequeueAfter = 60000000000\<rparr> \<and> (\<exists>e0 msg. e = Wrapped e0 msg))
         \<and> (\<forall>res w'. Reconcile r req w = (Returns (res, None), w') \<longrightarrow>
               res = \<lparr>Requeue = False, RequeueAfter = 0\<rparr>)"
proof -
  have eq: "Reconcile r req w =
           spec_upsertInOrder [CronJobKind, ConfigMapKind, DeploymentKind, ServiceKind, IngressKind] r
             (Some page) settings
             \<lparr>store = s2, calls = calls w @ [GetHugoPageCall req,
                GetSettingCall \<lparr>nn_Namespace = nn_Namespace req, nn_Name = settingName r\<rparr>]\<rparr>"
    using Reconcile_fetched [OF page settings] by simp
  show ?thesis
    unfolding eq using spec_upsertInOrder_error spec_upsertInOrder_success by blast
qed

text \<open>C4 at a store that holds page and settings: all five upserts succeed.\<close>

theorem reconcile_upserts_in_order_witness:
  "cl_GetHugoPage (pageClient (memReconciler noFaults)) sampleKey (store (world0 storeWithBoth)) =
     ((None, samplePage), storeWithBoth)
   \<and> cl_GetSetting (settingClient (memReconciler noFaults)) settingsKey storeWithBoth =
     ((None, sampleSetting), storeWithBoth)
   \<and> Reconcile (memReconciler noFaults) sampleKey (world0 storeWithBoth) =
       spec_upsertInOrder [CronJobKind, ConfigMapKind, DeploymentKind, ServiceKind, IngressKind]
         (memReconciler noFaults) (Some samplePage) sampleSetting
         \<lparr>store = storeWithBoth, calls = [GetHugoPageCall sampleKey, GetSettingCall settingsKey]\<rparr>
   \<and> fst (Reconcile (memReconciler noFaults) sampleKey (world0 storeWithBoth)) =
       Returns (\<lparr>Requeue = False, RequeueAfter = 0\<rparr>, None)"
proof -
  have page: "cl_GetHugoPage (pageClient (memReconciler noFaults)) sampleKey (store (world0 storeWithBoth)) =
     ((None, samplePage), storeWithBoth)"
    by (simp add: memGetHugoPage_def noFaults_def world0_def storeWithBoth_def emptyStore_def)
  have settings: "cl_GetSetting (settingClient (memReconciler noFaults))
      \<lparr>nn_Namespace = nn_Namespace sampleKey, nn_Name = settingName (memReconciler noFaults)\<rparr>
      storeWithBoth = ((None, sampleSetting), storeWithBoth)"
    by (simp add: memGetSetting_def noFaults_def storeWithBoth_def emptyStore_def
          sampleKey_def settingsKey_def)
  have key: "\<lparr>nn_Namespace = nn_Namespace sampleKey, nn_Name = settingName (memReconciler noFaults)\<rparr>
      = settingsKey"
    by (simp add: sampleKey_def settingsKey_def)
  have c0: "calls (world0 storeWithBoth) = []"
    by (simp add: world0_def)
  have eq: "Reconcile (memReconciler noFaults) sampleKey (world0 storeWithBoth) =
       spec_upsertInOrder [CronJobKind, ConfigMapKind, DeploymentKind, ServiceKind, IngressKind]
         (memReconciler noFaults) (Some samplePage) sampleSetting
         \<lparr>store = storeWithBoth, calls = [GetHugoPageCall sampleKey, GetSettingCall settingsKey]\<rparr>"
    using reconcile_upserts_in_order [OF page settings, THEN conjunct1]
    unfolding key c0 append_Nil .
  have "fst (spec_upsertInOrder [CronJobKind, ConfigMapKind, DeploymentKind, ServiceKind, IngressKind]
         (memReconciler noFaults) (Some samplePage) sampleSetting
         \<lparr>store = storeWithBoth, calls = [GetHugoPageCall sampleKey, GetSettingCall settingsKey]\<rparr>) =
       Returns (\<lparr>Requeue = False, RequeueAfter = 0\<rparr>, None)"
    by (simp add: mem_upsert Let_def)
  with eq page settings key show ?thesis by simp
qed

subsection \<open>C5: a read failure of the ConfigArtifact upsert\<close>

text \<open>
  C5 says that a read failure other than not-found makes every upsert return a wrapped,
  non-nil error, the ConfigMap upsert in particular. With child reads refused by the
  store, \<open>upsertConfigMap\<close> returns a nil object and a nil error, where
  \<open>upsertPageBuilderCronJob\<close> returns the wrapped error.
\<close>

theorem configmap_read_failure_returns_nil:
  "upsertConfigMap (memReconciler readsForbidden) (Some samplePage) sampleSetting (world0 emptyStore) =
     (Returns (None, None),
      \<lparr>store = emptyStore, calls = [GetCall ConfigMapKind (childKey ConfigMapKind samplePage)]\<rparr>)
   \<and> upsertPageBuilderCronJob (memReconciler readsForbidden) (Some samplePage) sampleSetting (world0 emptyStore) =
     (Returns (None, Some (Wrapped (StatusError Forbidden) ''Failed to get page-builder CronJob'')),
      \<lparr>store = emptyStore, calls = [GetCall CronJobKind (childKey CronJobKind samplePage)]\<rparr>)"
proof -
  have get: "cl_Get (client (memReconciler readsForbidden)) k key (store (world0 emptyStore)) =
      ((Some (StatusError Forbidden), Object0), emptyStore)" for k key
    by (simp add: memGet_def world0_def)
  have nf: "\<not> IsNotFound (Some (StatusError Forbidden))" by simp
  show ?thesis
    unfolding upsertConfigMap_shape upsertPageBuilderCronJob_shape
    by (simp only: commitChild_failed [OF get nf]) (simp add: world0_def)
qed

subsection \<open>C6: TLS wiring of the Route\<close>

text \<open>
  C6 as stated derives the secret name from the page's URL. For the page named \<open>blog\<close>
  with URL \<open>docs.example.com\<close> and TLS enabled, the Route the upsert returns names the
  secret \<open>blog-page-secret\<close>, not \<open>docs-example-com-page-secret\<close>.
\<close>

theorem ingress_secret_from_name:
  "tls_Enable (st_TLS (set_Spec sampleSetting))
   \<and> hp_URL (page_Spec samplePage) = ''docs.example.com''
   \<and> fst (upsertPageIngress (memReconciler noFaults) (Some samplePage) sampleSetting (world0 emptyStore)) =
       Returns (Some (buildPageIngress samplePage sampleSetting mainScheme Object0), None)
   \<and> map it_SecretName (ingressTLS (buildPageIngress samplePage sampleSetting mainScheme Object0)) =
       [''blog-page-secret'']"
proof -
  have "fst (upsertChild IngressKind (memReconciler noFaults) (Some samplePage) sampleSetting (world0 emptyStore)) =
       Returns (Some (desiredChild IngressKind samplePage sampleSetting mainScheme Object0), None)"
    by (simp add: mem_upsert Let_def world0_def emptyStore_def)
  then have "fst (upsertPageIngress (memReconciler noFaults) (Some samplePage) sampleSetting (world0 emptyStore)) =
       Returns (Some (buildPageIngress samplePage sampleSetting mainScheme Object0), None)"
    by (simp only: upsertChild.simps desiredChild.simps)
  moreover have "map it_SecretName (ingressTLS (buildPageIngress samplePage sampleSetting mainScheme Object0)) =
       [''blog-page-secret'']"
    by (simp add: buildPageIngress_def Let_def sampleSetting_def samplePage_def ReplaceAll_dot_dash
          dotsToDashes_def ObjectMeta0_def HugoPage0_def Setting0_def)
  ultimately show ?thesis
    by (simp add: sampleSetting_def samplePage_def Setting0_def HugoPage0_def)
qed

text \<open>
  C6, amended: with the TLS flag set, every Route the Route upsert writes or returns has
  one TLS block, for the page's URL as host, whose secret name is the page's name with
  every dot replaced by a dash, followed by \<open>-page-secret\<close>; and every pair of the
  settings' TLS annotations is among the Route's annotations.
\<close>

theorem ingress_tls_wiring:
  assumes tls: "tls_Enable (st_TLS (set_Spec settings))"
      and run: "upsertPageIngress r (Some page) settings w = (res, w')"
      and obj: "res = Returns (Some obj, err) \<or> CreateCall obj \<in> set (newCalls w w')
                \<or> UpdateCall obj \<in> set (newCalls w w')"
  shows "ingressTLS obj =
           [\<lparr>it_Hosts = [hp_URL (page_Spec page)],
             it_SecretName = dotsToDashes (page_Name page) @ ''-page-secret''\<rparr>]
         \<and> tls_Annotations (st_TLS (set_Spec settings)) \<subseteq>\<^sub>m om_Annotations (obj_Meta obj)"
proof -
  from run have "upsertChild IngressKind r (Some page) settings w = (res, w')"
    by (simp only: upsertChild.simps)
  from upsertChild_produces [OF this obj]
  obtain read where "obj = buildPageIngress page settings (scheme r) read"
    by (auto simp only: desiredChild.simps)
  with tls show ?thesis
    by (simp add: buildPageIngress_def Let_def ReplaceAll_dot_dash ObjectMeta0_def map_le_def)
qed

text \<open>The amended statement at the sample page and settings.\<close>

theorem ingress_tls_wiring_witness:
  "tls_Enable (st_TLS (set_Spec sampleSetting))
   \<and> ingressTLS (buildPageIngress samplePage sampleSetting mainScheme Object0) =
       [\<lparr>it_Hosts = [''docs.example.com''], it_SecretName = ''blog-page-secret''\<rparr>]
   \<and> om_Annotations (obj_Meta (buildPageIngress samplePage sampleSetting mainScheme Object0))
       ''cert-manager.io/cluster-issuer'' = Some ''letsencrypt''"
proof -
  let ?R = "memReconciler noFaults"
  let ?run = "upsertPageIngress ?R (Some samplePage) sampleSetting (world0 emptyStore)"
  have tls: "tls_Enable (st_TLS (set_Spec sampleSetting))"
    by (simp add: sampleSetting_def Setting0_def)
  have run: "?run = (fst ?run, snd ?run)" by simp
  have "fst (upsertChild IngressKind ?R (Some samplePage) sampleSetting (world0 emptyStore)) =
       Returns (Some (desiredChild IngressKind samplePage sampleSetting mainScheme Object0), None)"
    by (simp add: mem_upsert Let_def world0_def emptyStore_def)
  then have res: "fst ?run = Returns (Some (buildPageIngress samplePage sampleSetting mainScheme Object0), None)"
    by (simp only: upsertChild.simps desiredChild.simps)
  from ingress_tls_wiring [OF tls run disjI1, OF res] tls
  show ?thesis
    by (simp add: map_le_def sampleSetting_def samplePage_def Setting0_def HugoPage0_def
          ObjectMeta0_def dotsToDashes_def)
qed

subsection \<open>C7: the rendered proxy configuration\<close>

text \<open>
  C7: the template compiles, and the \<open>nginx.conf\<close> entry of the ConfigMap is the fixed
  text around the proxy target, a function of the effective endpoint (the proxy-URL
  override when non-empty, the storage endpoint otherwise), the bucket name and the page
  name; the target is these three joined by slashes with a trailing slash. For
  \<open>https://s3.example.com\<close>, \<open>my-bucket\<close> and \<open>blog\<close> it is
  \<open>https://s3.example.com/my-bucket/blog/\<close>.
\<close>

theorem proxy_config_rendering:
  "\<exists>tmpl. Parse nginxConfTemplate = Inr tmpl
     \<and> configMapData (buildConfigMap page settings sch tmpl read) =
         Some [''nginx.conf'' \<mapsto>
           spec_renderProxyConfig (spec_effectiveEndpoint settings)
             (s3_BucketName (st_S3Config (set_Spec settings))) (page_Name page)]
     \<and> spec_proxyTarget ''https://s3.example.com'' ''my-bucket'' ''blog'' =
         ''https://s3.example.com/my-bucket/blog/''"
  by (rule exI [of _ nginxConfNodes])
     (simp add: Parse_nginxConfTemplate buildConfigMap_def Let_def Execute_def nginxConfNodes_def
        spec_renderProxyConfig_def spec_proxyTarget_def spec_effectiveEndpoint_def)

subsection \<open>C8: idempotence\<close>

text \<open>
  C8: over the in-memory store, for every child kind, page and settings, an upsert
  succeeds and leaves its desired object stored under the child's key; a second upsert
  with the same input returns the same object, issues a single update carrying exactly
  the stored object, and leaves the store as the first call left it.
\<close>

theorem upsert_idempotent:
  fixes w :: "MemStore World"
  shows "(let r = NewHugoPageReconciler (memClient noFaults) pc sc sname sch;
              (res1, w1) = upsertChild k r (Some page) settings w;
              (res2, w2) = upsertChild k r (Some page) settings w1
          in \<exists>obj. res1 = Returns (Some obj, None) \<and> res2 = res1
                \<and> ms_objects (store w1) (k, childKey k page) = Some obj
                \<and> store w2 = store w1
                \<and> writesIssued w1 w2 = [UpdateCall obj])"
proof -
  define r where "r = NewHugoPageReconciler (memClient noFaults) pc sc sname sch"
  have cl: "client r = memClient noFaults"
    by (simp add: r_def NewHugoPageReconciler_def)
  show ?thesis
    unfolding r_def [symmetric] Let_def
    by (simp add: mem_upsert [OF cl] Let_def desiredChild_idem writesIssued_def)
qed

subsection \<open>C9: ownership\<close>

text \<open>
  C9: with the page type registered in the scheme (as \<open>main\<close> registers it), every object
  that an upsert of any of the five kinds hands to \<open>Create\<close> or \<open>Update\<close> carries exactly
  one owner reference, the controller reference to the page; so cascade deletion of the
  page removes that object from any store that holds it.
\<close>

theorem children_owned_by_page:
  assumes sch: "scheme r = Some gvk"
      and run: "upsertChild k r (Some page) settings w = (res, w')"
      and wr: "CreateCall obj \<in> set (newCalls w w') \<or> UpdateCall obj \<in> set (newCalls w w')"
  shows "om_OwnerReferences (obj_Meta obj) = [controllerRef gvk page]
         \<and> (\<forall>s key. ms_objects s key = Some obj \<longrightarrow> ms_objects (cascadeDelete page s) key = None)"
proof -
  from wr have "res = Returns (Some obj, None) \<or> CreateCall obj \<in> set (newCalls w w')
                \<or> UpdateCall obj \<in> set (newCalls w w')"
    by blast
  from upsertChild_produces [OF run this] sch
  have refs: "om_OwnerReferences (obj_Meta obj) = [controllerRef gvk page]"
    by (auto simp: desiredChild_owner_refs)
  then show ?thesis
    by (simp add: cascadeDelete_def refersTo_def controllerRef_def)
qed

text \<open>C9 at the ScheduledJob upsert over the empty store.\<close>

theorem children_owned_by_page_witness:
  "scheme (memReconciler noFaults) = mainScheme
   \<and> CreateCall (desiredChild CronJobKind samplePage sampleSetting mainScheme Object0)
       \<in> set (newCalls (world0 emptyStore)
                (snd (upsertChild CronJobKind (memReconciler noFaults) (Some samplePage) sampleSetting
                        (world0 emptyStore))))
   \<and> om_OwnerReferences (obj_Meta (desiredChild CronJobKind samplePage sampleSetting mainScheme Object0)) =
       [\<lparr>or_APIVersion = ''hugo-hoster.cedi.dev/v1alpha1'', or_Kind = ''HugoPage'', or_Name = ''blog'',
         or_UID = ''uid-1'', or_Controller = Some True, or_BlockOwnerDeletion = Some True\<rparr>]
   \<and> ms_objects
        (cascadeDelete samplePage
           (store (snd (upsertChild CronJobKind (memReconciler noFaults) (Some samplePage) sampleSetting
                          (world0 emptyStore)))))
        (CronJobKind, childKey CronJobKind samplePage) = None"
proof -
  let ?R = "memReconciler noFaults"
  let ?run = "upsertChild CronJobKind ?R (Some samplePage) sampleSetting (world0 emptyStore)"
  let ?d = "desiredChild CronJobKind samplePage sampleSetting mainScheme Object0"
  have sch: "scheme ?R = Some (''hugo-hoster.cedi.dev/v1alpha1'', ''HugoPage'')"
    by (simp add: mainScheme_def)
  have run: "?run = (fst ?run, snd ?run)" by simp
  have wr: "CreateCall ?d \<in> set (newCalls (world0 emptyStore) (snd ?run))"
    by (simp add: mem_upsert Let_def world0_def emptyStore_def newCalls_def)
  have stored: "ms_objects (store (snd ?run)) (CronJobKind, childKey CronJobKind samplePage) = Some ?d"
    by (simp add: mem_upsert Let_def world0_def emptyStore_def)
  from children_owned_by_page [OF sch run disjI1, OF wr] wr stored
  show ?thesis
    by (simp add: controllerRef_def samplePage_def HugoPage0_def ObjectMeta0_def)
qed

subsection \<open>C10: the service selects its own pods\<close>

text \<open>
  C10: the ProxyService's selector and the label set on the ProxyWorkload's pod template
  are both the map of \<open>app\<close>, \<open>component\<close> and \<open>page\<close> for the page, and both objects
  live in the page's namespace; so the service built for one page selects the pods of
  the workload built for a page exactly when the two pages have the same namespace and
  the same name, that is, when they are the same Site.
\<close>

theorem service_selects_own_pods:
  "serviceSelector (buildNginxProxyService page sch read1) =
     Some [''app'' \<mapsto> ''hugo-hoster'', ''component'' \<mapsto> ''nginx-proxy'', ''page'' \<mapsto> page_Name page]
   \<and> podTemplateLabels (buildPageNginxProxy page settings sch read2) =
     Some [''app'' \<mapsto> ''hugo-hoster'', ''component'' \<mapsto> ''nginx-proxy'', ''page'' \<mapsto> page_Name page]
   \<and> om_Namespace (obj_Meta (buildNginxProxyService page sch read1)) = page_Namespace page
   \<and> om_Namespace (obj_Meta (buildPageNginxProxy page settings sch read2)) = page_Namespace page
   \<and> selects (buildNginxProxyService page sch read1) (buildPageNginxProxy page' settings' sch' read3) =
       (page_Namespace page = page_Namespace page' \<and> page_Name page = page_Name page')"
  by (auto simp: buildNginxProxyService_def buildPageNginxProxy_def Let_def makeLabels_def
        selects_def map_le_def ObjectMeta0_def)

end
